theory Spec2Isabelle
  imports Complex_Main "HOL-Library.Sublist"
begin

section \<open>Python values\<close>

text \<open>
  A Python \<open>str\<close> is a sequence of Unicode code points; the model keeps it as the list of
  these code points, so that the Chinese literals of \<open>plugin.py\<close> are the lists of their
  code points and \<open>split\<close>, \<open>strip\<close>, \<open>==\<close> and \<open>+\<close> work on what Python works on.
  \<open>ascii\<close> writes an ASCII literal readably.
\<close>

type_synonym pystr = "nat list"

definition ascii :: "string \<Rightarrow> pystr" where
  "ascii s = map of_char s"

text \<open>
  The values that travel through the plugin untyped (configuration values, the fields of
  a message, the JSON body of the HTTP response). \<open>PyOther\<close> is an object of any other
  type (a list, say), given by the name of its type and its truth value.
\<close>

datatype pyval =
    PyNone
  | PyBool bool
  | PyInt int
  | PyFloat real
  | PyStr pystr
  | PyDict "(pystr \<times> pyval) list"
  | PyOther pystr bool

type_synonym pydict = "(pystr \<times> pyval) list"

text \<open>Truth value testing (\<open>if v:\<close>, \<open>not v\<close>).\<close>

fun py_truthy :: "pyval \<Rightarrow> bool" where
  "py_truthy PyNone = False"
| "py_truthy (PyBool b) = b"
| "py_truthy (PyInt i) = (i \<noteq> 0)"
| "py_truthy (PyFloat r) = (r \<noteq> 0)"
| "py_truthy (PyStr s) = (s \<noteq> [])"
| "py_truthy (PyDict d) = (d \<noteq> [])"
| "py_truthy (PyOther ty b) = b"

fun type_name :: "pyval \<Rightarrow> pystr" where
  "type_name PyNone = ascii ''NoneType''"
| "type_name (PyBool b) = ascii ''bool''"
| "type_name (PyInt i) = ascii ''int''"
| "type_name (PyFloat r) = ascii ''float''"
| "type_name (PyStr s) = ascii ''str''"
| "type_name (PyDict d) = ascii ''dict''"
| "type_name (PyOther ty b) = ty"

text \<open>The decimal text of an integer, as \<open>str\<close> gives it.\<close>

fun digits :: "nat \<Rightarrow> pystr" where
  "digits n = (if n < 10 then [48 + n] else digits (n div 10) @ [48 + n mod 10])"

declare digits.simps [simp del]

definition str_int :: "int \<Rightarrow> pystr" where
  "str_int i = (if i < 0 then 45 # digits (nat (- i)) else digits (nat i))"

text \<open>
  \<open>str(v)\<close>, which is also what an f-string field \<open>{v}\<close> inserts for these types. The text
  of a float, of a dictionary and of any other object is not computed by the model: it is
  what the parameter \<open>rp\<close> gives, and every theorem holds for every \<open>rp\<close>.
\<close>

fun py_str :: "(pyval \<Rightarrow> pystr) \<Rightarrow> pyval \<Rightarrow> pystr" where
  "py_str rp PyNone = ascii ''None''"
| "py_str rp (PyBool b) = (if b then ascii ''True'' else ascii ''False'')"
| "py_str rp (PyInt i) = str_int i"
| "py_str rp (PyStr s) = s"
| "py_str rp v = rp v"

subsection \<open>Exceptions\<close>

text \<open>
  An instance of a subclass of \<open>Exception\<close>: its class, as far as the code tells classes
  apart, and the text \<open>str(e)\<close>. Every \<open>except Exception\<close> of the source catches all
  of them. What is not an \<open>Exception\<close> (the cancellation of the running task, an
  interrupt) is outside the model.
\<close>

datatype exn_class = IndexError | AttributeError | TimeoutError | OtherException

datatype exn = Exn exn_class pystr

fun exn_str :: "exn \<Rightarrow> pystr" where
  "exn_str (Exn c s) = s"

fun exn_cls :: "exn \<Rightarrow> exn_class" where
  "exn_cls (Exn c s) = c"

definition no_attribute :: "pyval \<Rightarrow> string \<Rightarrow> exn" where
  \<comment> \<open>the AttributeError of \<open>v.name\<close> on an object without that attribute\<close>
  "no_attribute v name =
     Exn AttributeError
       ([0x27] @ type_name v @ [0x27] @ ascii '' object has no attribute '' @ [0x27]
          @ ascii name @ [0x27])"

definition index_error :: exn where
  "index_error = Exn IndexError (ascii ''list index out of range'')"

subsection \<open>Dictionaries\<close>

text \<open>
  A \<open>dict\<close> keeps its keys in insertion order and the prompt builder depends on that
  order, so a dictionary is the list of its items. \<open>d[k] = v\<close> replaces the value of a
  key in place and appends a new key; \<open>del d[k]\<close> removes the key. The lists that
  stand for dictionaries have distinct keys. Every \<open>del\<close> of the source removes a key it
  has just read from the same dictionary, so the KeyError of a missing key cannot arise,
  and \<open>dict_del\<close> is the removal alone.
\<close>

definition dict_get :: "('k \<times> 'v) list \<Rightarrow> 'k \<Rightarrow> 'v option" where
  "dict_get d k = map_of d k"

fun dict_set :: "'k \<Rightarrow> 'v \<Rightarrow> ('k \<times> 'v) list \<Rightarrow> ('k \<times> 'v) list" where
  "dict_set k v [] = [(k, v)]"
| "dict_set k v (p # d) = (if fst p = k then (k, v) # d else p # dict_set k v d)"

definition dict_del :: "'k \<Rightarrow> ('k \<times> 'v) list \<Rightarrow> ('k \<times> 'v) list" where
  "dict_del k d = filter (\<lambda>p. fst p \<noteq> k) d"

definition get_default :: "('k \<times> 'v) list \<Rightarrow> 'k \<Rightarrow> 'v \<Rightarrow> 'v" where
  \<comment> \<open>\<open>d.get(k, default)\<close>\<close>
  "get_default d k dflt = (case dict_get d k of None \<Rightarrow> dflt | Some v \<Rightarrow> v)"

definition wf_dict :: "('k \<times> 'v) list \<Rightarrow> bool" where
  "wf_dict d = distinct (map fst d)"

section \<open>The profile cache\<close>

text \<open>
  Time is the value of \<open>time.time()\<close>, a number of seconds, taken as a real number. Each
  call of \<open>time.time()\<close> in the source is a parameter of its own in the model.
\<close>

record UserInfoData =
  user_id :: pystr
  display_name :: pystr
  api_data :: pydict
  timestamp :: real
  success :: bool

record UserInfoCache =
  user_data :: UserInfoData
  timestamp :: real

type_synonym cache = "(pystr \<times> UserInfoCache) list"

definition expired :: "real \<Rightarrow> UserInfoCache \<Rightarrow> bool" where
  \<comment> \<open>\<open>current_time - v["timestamp"] > 600\<close>\<close>
  "expired now v = (now - UserInfoCache.timestamp v > 600)"

definition del_keys :: "'k list \<Rightarrow> ('k \<times> 'v) list \<Rightarrow> ('k \<times> 'v) list" where
  \<comment> \<open>\<open>for key in expired_keys: del cache[key]\<close>\<close>
  "del_keys ks d = fold dict_del ks d"

definition expired_keys :: "real \<Rightarrow> cache \<Rightarrow> pystr list" where
  "expired_keys now c = map fst (filter (\<lambda>p. expired now (snd p)) c)"

definition store_user_info :: "cache \<Rightarrow> pystr \<Rightarrow> UserInfoData \<Rightarrow> real \<Rightarrow> real \<Rightarrow> cache" where
  \<comment> \<open>\<open>t_store\<close> is the \<open>time.time()\<close> of line 45, \<open>t_sweep\<close> the one of line 48\<close>
  "store_user_info c uid ud t_store t_sweep =
     (let c1 = dict_set uid \<lparr>user_data = ud, timestamp = t_store\<rparr> c
      in del_keys (expired_keys t_sweep c1) c1)"

definition get_user_info :: "cache \<Rightarrow> pystr \<Rightarrow> real \<Rightarrow> cache \<times> UserInfoData option" where
  "get_user_info c uid now =
     (case dict_get c uid of
        None \<Rightarrow> (c, None)
      | Some cache_entry \<Rightarrow>
          if now - UserInfoCache.timestamp cache_entry \<le> 600
          then (c, Some (user_data cache_entry))
          else (dict_del uid c, None))"

text \<open>
  The loop of \<open>get_all_user_info\<close> over the items, with the result dictionary and
  the list of expired keys it builds.
\<close>

fun collect_valid ::
  "real \<Rightarrow> cache \<Rightarrow> (pystr \<times> UserInfoData) list \<Rightarrow> pystr list
     \<Rightarrow> (pystr \<times> UserInfoData) list \<times> pystr list" where
  "collect_valid now [] result ks = (result, ks)"
| "collect_valid now ((uid, cache_entry) # rest) result ks =
     (if now - UserInfoCache.timestamp cache_entry \<le> 600
      then collect_valid now rest (dict_set uid (user_data cache_entry) result) ks
      else collect_valid now rest result (ks @ [uid]))"

definition get_all_user_info :: "cache \<Rightarrow> real \<Rightarrow> cache \<times> (pystr \<times> UserInfoData) list" where
  "get_all_user_info c now =
     (case collect_valid now c [] [] of
        (result, ks) \<Rightarrow> (del_keys ks c, result))"

definition clear_expired_cache :: "cache \<Rightarrow> real \<Rightarrow> cache \<times> nat" where
  "clear_expired_cache c now =
     (let ks = expired_keys now c in (del_keys ks c, length ks))"

definition live_records :: "real \<Rightarrow> cache \<Rightarrow> (pystr \<times> UserInfoData) list" where
  \<comment> \<open>what \<open>get_all_user_info\<close> returns on a cache with distinct keys\<close>
  "live_records now c =
     map (\<lambda>p. (fst p, user_data (snd p))) (filter (\<lambda>p. \<not> expired now (snd p)) c)"

section \<open>Strings\<close>

text \<open>
  \<open>s.split(sep)\<close> for a separator of one character: the pieces between the occurrences
  of the separator, always at least one piece.
\<close>

fun split_chr :: "nat \<Rightarrow> pystr \<Rightarrow> pystr list" where
  "split_chr sep [] = [[]]"
| "split_chr sep (c # cs) =
     (if c = sep then [] # split_chr sep cs
      else (case split_chr sep cs of
              [] \<Rightarrow> [[c]]
            | w # ws \<Rightarrow> (c # w) # ws))"

definition is_space :: "nat \<Rightarrow> bool" where
  \<comment> \<open>the code points that \<open>str.strip()\<close> removes (Unicode white space)\<close>
  "is_space c =
     ((0x09 \<le> c \<and> c \<le> 0x0D) \<or> (0x1C \<le> c \<and> c \<le> 0x20) \<or> c = 0x85 \<or> c = 0xA0
      \<or> c = 0x1680 \<or> (0x2000 \<le> c \<and> c \<le> 0x200A) \<or> c = 0x2028 \<or> c = 0x2029
      \<or> c = 0x202F \<or> c = 0x205F \<or> c = 0x3000)"

definition strip :: "pystr \<Rightarrow> pystr" where
  "strip s = rev (dropWhile is_space (rev (dropWhile is_space s)))"

definition rstrip_chr :: "nat \<Rightarrow> pystr \<Rightarrow> pystr" where
  \<comment> \<open>\<open>s.rstrip(c)\<close> for one character \<open>c\<close>\<close>
  "rstrip_chr c s = rev (dropWhile (\<lambda>x. x = c) (rev s))"

definition list_index :: "'a list \<Rightarrow> nat \<Rightarrow> exn + 'a" where
  \<comment> \<open>\<open>xs[i]\<close> for a literal index \<open>i \<ge> 0\<close>: IndexError out of range\<close>
  "list_index xs i = (if i < length xs then Inr (xs ! i) else Inl index_error)"

definition bind_exn :: "exn + 'a \<Rightarrow> ('a \<Rightarrow> exn + 'b) \<Rightarrow> exn + 'b" where
  \<comment> \<open>sequencing: an exception of the first step ends the computation\<close>
  "bind_exn r f = (case r of Inl e \<Rightarrow> Inl e | Inr x \<Rightarrow> f x)"

section \<open>The profile fetch client\<close>

text \<open>
  The fields of \<open>ApiService\<close> hold whatever the constructor was given; the handler passes
  configuration values through unchecked. \<open>session\<close> is the field \<open>_session\<close>. The
  keep-alive task that the constructor may start runs beside the rest and is not
  modelled.
\<close>

datatype session = ClientSession

record ApiService =
  base_url :: pyval
  keep_alive_url :: pyval
  timeout :: pyval
  enabled_keep_alive :: pyval
  enable_api :: pyval
  session :: "session option"

definition err_api_disabled :: pystr where
  \<comment> \<open>line 147\<close>
  "err_api_disabled =
    [0x41, 0x50, 0x49, 0x670D, 0x52A1, 0x5DF2, 0x7981, 0x7528]"

definition err_api_timeout :: pystr where
  \<comment> \<open>line 164\<close>
  "err_api_timeout =
    [0x41, 0x50, 0x49, 0x8BF7, 0x6C42, 0x8D85, 0x65F6]"

definition err_request_prefix :: pystr where
  \<comment> \<open>line 166\<close>
  "err_request_prefix =
    [0x8BF7, 0x6C42, 0x9519, 0x8BEF, 0x3A, 0x20]"

definition err_status_prefix :: pystr where
  \<comment> \<open>line 161\<close>
  "err_status_prefix =
    [0x41, 0x50, 0x49, 0x8FD4, 0x56DE, 0x72B6, 0x6001, 0x7801, 0x3A, 0x20]"

definition create_success_response :: "pyval \<Rightarrow> int \<Rightarrow> pydict" where
  "create_success_response data status_code =
     [(ascii ''success'', PyBool True),
      (ascii ''data'', data),
      (ascii ''status_code'', PyInt status_code),
      (ascii ''error'', PyNone)]"

definition create_error_response :: "pystr \<Rightarrow> int \<Rightarrow> pydict" where
  "create_error_response error status_code =
     [(ascii ''success'', PyBool False),
      (ascii ''data'', PyNone),
      (ascii ''status_code'', PyInt status_code),
      (ascii ''error'', PyStr error)]"

definition get_session :: "ApiService \<Rightarrow> ApiService \<times> session" where
  "get_session svc =
     (case session svc of
        None \<Rightarrow> (svc\<lparr>session := Some ClientSession\<rparr>, ClientSession)
      | Some s \<Rightarrow> (svc, s))"

text \<open>
  What the HTTP request does is an input of the model: either \<open>session.post\<close> gives a
  response with a status, whose body \<open>response.json()\<close> then parses or fails to parse,
  or the request raises (a timeout, a client error, anything else).
\<close>

datatype http_outcome =
    Response int "exn + pyval"
  | RequestRaised exn

definition post_request :: "http_outcome \<Rightarrow> exn + pydict" where
  \<comment> \<open>the body of the \<open>try\<close> of \<open>fetch_user_info\<close>, lines 152 to 162\<close>
  "post_request http =
     (case http of
        RequestRaised e \<Rightarrow> Inl e
      | Response status body \<Rightarrow>
          if status = 200
          then bind_exn body (\<lambda>data. Inr (create_success_response data status))
          else Inr (create_error_response (err_status_prefix @ str_int status) status))"

definition handle_request_error :: "exn \<Rightarrow> pydict" where
  \<comment> \<open>the two \<open>except\<close> clauses, lines 163 to 166\<close>
  "handle_request_error e =
     (if exn_cls e = TimeoutError then create_error_response err_api_timeout 0
      else create_error_response (err_request_prefix @ exn_str e) 0)"

text \<open>
  \<open>fetch_user_info\<close> returns the service (its session may have been created), the URLs
  that \<open>session.post\<close> was called with, and the result dictionary. Creating the session
  object is taken not to raise. The only exception that leaves \<open>fetch_user_info\<close> is
  then the AttributeError of \<open>rstrip\<close> on a base URL that is not a string, at line 149,
  before the \<open>try\<close>.
\<close>

definition fetch_user_info ::
  "ApiService \<Rightarrow> pystr \<Rightarrow> http_outcome \<Rightarrow> exn + (ApiService \<times> pystr list \<times> pydict)" where
  "fetch_user_info svc uid http =
     (if \<not> py_truthy (enable_api svc)
      then Inr (svc, [], create_error_response err_api_disabled 0)
      else (case base_url svc of
              PyStr b \<Rightarrow>
                (let url = rstrip_chr 0x2F b @ ascii ''/get_info/'' @ uid;
                     (svc', s) = get_session svc
                 in Inr (svc', [url],
                      (case post_request http of
                         Inr r \<Rightarrow> r
                       | Inl e \<Rightarrow> handle_request_error e)))
            | v \<Rightarrow> Inl (no_attribute v ''rstrip'')))"

section \<open>The prompt interceptor\<close>

subsection \<open>The literals\<close>

text \<open>
  The tier description \<open>impression_prompt\<close> (lines 317 to 327, and the same text at
  lines 438 to 448) is one literal of eleven lines, the first of them empty. Each of its
  lines is a constant here, given by its code points.
\<close>

definition tier_heading :: pystr where
  \<comment> \<open>plugin.py line 318 (and 439), without the line break\<close>
  "tier_heading =
    [0x597D, 0x611F, 0x5EA6, 0x7B49, 0x7EA7, 0x63CF, 0x8FF0, 0x3A]"

definition tier_0_10 :: pystr where
  \<comment> \<open>plugin.py line 319 (and 440), without the line break\<close>
  "tier_0_10 =
    [0x597D, 0x611F, 0x5EA6, 0x5B, 0x30, 0x2D, 0x31, 0x30, 0x5D, 0xFF1A, 0x8DEF, 0x4EBA,
     0x20, 0x28, 0x6001, 0x5EA6, 0xFF1A, 0x666E, 0x901A, 0x29, 0x20, 0x4F60, 0x4E0E, 0x7528,
     0x6237, 0x5173, 0x7CFB, 0x662F, 0x8DEF, 0x4EBA, 0xFF0C, 0x5BF9, 0x7528, 0x6237, 0x6001, 0x5EA6,
     0x666E, 0x901A, 0x3002, 0x4E0D, 0x4F1A, 0x4E3B, 0x52A8, 0x63A5, 0x8FD1, 0x7528, 0x6237, 0xFF0C,
     0x4F46, 0x4E5F, 0x4E0D, 0x4F1A, 0x6392, 0x65A5, 0x7528, 0x6237, 0xFF0C, 0x4FDD, 0x6301, 0x57FA,
     0x672C, 0x793C, 0x8C8C, 0x548C, 0x6D3B, 0x6CFC, 0x3002]"

definition tier_10_25 :: pystr where
  \<comment> \<open>plugin.py line 320 (and 441), without the line break\<close>
  "tier_10_25 =
    [0x597D, 0x611F, 0x5EA6, 0x5B, 0x31, 0x30, 0x2D, 0x32, 0x35, 0x5D, 0xFF1A, 0x964C,
     0x751F, 0x20, 0x28, 0x6001, 0x5EA6, 0xFF1A, 0x666E, 0x901A, 0xFF0C, 0x8B66, 0x60D5, 0x29,
     0x20, 0x4F60, 0x4E0E, 0x7528, 0x6237, 0x5173, 0x7CFB, 0x662F, 0x964C, 0x751F, 0xFF0C, 0x5BF9,
     0x7528, 0x6237, 0x6001, 0x5EA6, 0x666E, 0x901A, 0x3002, 0x5BF9, 0x7528, 0x6237, 0x4FDD, 0x6301,
     0x57FA, 0x672C, 0x793C, 0x8C8C, 0x548C, 0x6D3B, 0x6CFC, 0xFF0C, 0x4E0D, 0x4F1A, 0x5BF9, 0x7528,
     0x6237, 0x8BF4, 0x5173, 0x4E8E, 0x4F60, 0x9690, 0x79C1, 0x7684, 0x4E8B, 0x60C5, 0x3002, 0x53EF,
     0x63A5, 0x53D7, 0x4E00, 0x70B9, 0x70B9, 0x80A2, 0x4F53, 0x63A5, 0x89E6, 0x20, 0x28, 0x6BD4,
     0x5982, 0xFF1A, 0x6478, 0x6478, 0x5934, 0xFF0C, 0x6478, 0x6478, 0x8138, 0x29, 0xFF0C, 0x4EB2,
     0x5BC6, 0x63A5, 0x89E6, 0x9664, 0x5916, 0x3002]"

definition tier_25_50 :: pystr where
  \<comment> \<open>plugin.py line 321 (and 442), without the line break\<close>
  "tier_25_50 =
    [0x597D, 0x611F, 0x5EA6, 0x5B, 0x32, 0x35, 0x2D, 0x35, 0x30, 0x5D, 0xFF1A, 0x670B,
     0x53CB, 0x20, 0x28, 0x6001, 0x5EA6, 0xFF1A, 0x53CB, 0x597D, 0x29, 0x20, 0x4F60, 0x4E0E,
     0x7528, 0x6237, 0x5173, 0x7CFB, 0x662F, 0x670B, 0x53CB, 0xFF0C, 0x5BF9, 0x7528, 0x6237, 0x6001,
     0x5EA6, 0x53CB, 0x597D, 0x3002, 0x53EF, 0x63A5, 0x53D7, 0x4E00, 0x4E9B, 0x80A2, 0x4F53, 0x63A5,
     0x89E6, 0x20, 0x28, 0x6BD4, 0x5982, 0xFF1A, 0x7275, 0x624B, 0x29, 0xFF0C, 0x4EB2, 0x5BC6,
     0x63A5, 0x89E6, 0x9664, 0x5916, 0x3002]"

definition tier_50_90 :: pystr where
  \<comment> \<open>plugin.py line 322 (and 443), without the line break\<close>
  "tier_50_90 =
    [0x597D, 0x611F, 0x5EA6, 0x5B, 0x35, 0x30, 0x2D, 0x39, 0x30, 0x5D, 0xFF1A, 0x719F,
     0x6089, 0x20, 0x28, 0x6001, 0x5EA6, 0xFF1A, 0x670B, 0x53CB, 0xFF0C, 0x4EB2, 0x8FD1, 0x29,
     0x20, 0x4F60, 0x4E0E, 0x7528, 0x6237, 0x6001, 0x5EA6, 0x662F, 0x719F, 0x6089, 0xFF0C, 0x5BF9,
     0x7528, 0x6237, 0x6001, 0x5EA6, 0x662F, 0x670B, 0x53CB, 0x3002, 0x53EF, 0x63A5, 0x53D7, 0x66F4,
     0x591A, 0x80A2, 0x4F53, 0x63A5, 0x89E6, 0x20, 0x28, 0x6BD4, 0x5982, 0xFF1A, 0x62E5, 0x62B1,
     0x29, 0xFF0C, 0x4EB2, 0x5BC6, 0x63A5, 0x89E6, 0x9664, 0x5916, 0x3002]"

definition tier_90_140 :: pystr where
  \<comment> \<open>plugin.py line 323 (and 444), without the line break\<close>
  "tier_90_140 =
    [0x597D, 0x611F, 0x5EA6, 0x5B, 0x39, 0x30, 0x2D, 0x31, 0x34, 0x30, 0x5D, 0xFF1A,
     0x66F4, 0x52A0, 0x719F, 0x6089, 0x20, 0x28, 0x6001, 0x5EA6, 0xFF1A, 0x975E, 0x5E38, 0x8981,
     0x597D, 0x7684, 0x670B, 0x53CB, 0xFF0C, 0x4F9D, 0x8D56, 0x29, 0x20, 0x4F60, 0x4E0E, 0x7528,
     0x6237, 0x6001, 0x5EA6, 0x662F, 0x66F4, 0x52A0, 0x719F, 0x6089, 0xFF0C, 0x5BF9, 0x7528, 0x6237,
     0x6001, 0x5EA6, 0x662F, 0x975E, 0x5E38, 0x8981, 0x597D, 0x7684, 0x670B, 0x53CB, 0xFF0C, 0x5F00,
     0x59CB, 0x4F9D, 0x8D56, 0x5BF9, 0x65B9, 0x3002, 0x53EF, 0x63A5, 0x53D7, 0x66F4, 0x591A, 0x80A2,
     0x4F53, 0x63A5, 0x89E6, 0xFF0C, 0x53EF, 0x63A5, 0x53D7, 0x4E00, 0x70B9, 0x70B9, 0x4EB2, 0x5BC6,
     0x63A5, 0x89E6, 0x3002]"

definition tier_140_200 :: pystr where
  \<comment> \<open>plugin.py line 324 (and 445), without the line break\<close>
  "tier_140_200 =
    [0x597D, 0x611F, 0x5EA6, 0x5B, 0x31, 0x34, 0x30, 0x2D, 0x32, 0x30, 0x30, 0x5D,
     0xFF1A, 0x4FE1, 0x8D56, 0x20, 0x28, 0x6001, 0x5EA6, 0xFF1A, 0x4F9D, 0x8D56, 0xFF0C, 0x4FE1,
     0x4EFB, 0x29, 0x20, 0x4F60, 0x4E0E, 0x7528, 0x6237, 0x6001, 0x5EA6, 0x662F, 0x4FE1, 0x8D56,
     0xFF0C, 0x5BF9, 0x7528, 0x6237, 0x6001, 0x5EA6, 0x662F, 0x6BD4, 0x8F83, 0x4F9D, 0x8D56, 0x5BF9,
     0x65B9, 0xFF0C, 0x975E, 0x5E38, 0x4FE1, 0x4EFB, 0x3002, 0x53EF, 0x63A5, 0x53D7, 0x66F4, 0x591A,
     0x80A2, 0x4F53, 0x63A5, 0x89E6, 0xFF0C, 0x53EF, 0x63A5, 0x53D7, 0x66F4, 0x591A, 0x4EB2, 0x5BC6,
     0x63A5, 0x89E6, 0x3002]"

definition tier_200_270 :: pystr where
  \<comment> \<open>plugin.py line 325 (and 446), without the line break\<close>
  "tier_200_270 =
    [0x597D, 0x611F, 0x5EA6, 0x5B, 0x32, 0x30, 0x30, 0x2D, 0x32, 0x37, 0x30, 0x5D,
     0xFF1A, 0x76F8, 0x77E5, 0x20, 0x28, 0x6001, 0x5EA6, 0xFF1A, 0x53EF, 0x4EE5, 0x5206, 0x4EAB,
     0x79D8, 0x5BC6, 0x7684, 0x670B, 0x53CB, 0x29, 0x20, 0x4F60, 0x4E0E, 0x7528, 0x6237, 0x6001,
     0x5EA6, 0x662F, 0x76F8, 0x77E5, 0xFF0C, 0x5BF9, 0x7528, 0x6237, 0x6001, 0x5EA6, 0x5DF2, 0x8FBE,
     0x5230, 0x53EF, 0x5206, 0x4EAB, 0x5C0F, 0x79D8, 0x5BC6, 0x7684, 0x5730, 0x6B65, 0x3002, 0x53EF,
     0x63A5, 0x53D7, 0x66F4, 0x591A, 0x80A2, 0x4F53, 0x63A5, 0x89E6, 0xFF0C, 0x53EF, 0x63A5, 0x53D7,
     0x5927, 0x90E8, 0x5206, 0x4EB2, 0x5BC6, 0x63A5, 0x89E6, 0x3002]"

definition tier_270_400 :: pystr where
  \<comment> \<open>plugin.py line 326 (and 447), without the line break\<close>
  "tier_270_400 =
    [0x597D, 0x611F, 0x5EA6, 0x5B, 0x32, 0x37, 0x30, 0x2D, 0x34, 0x30, 0x30, 0x5D,
     0xFF1A, 0x539A, 0x8C0A, 0x20, 0x28, 0x6001, 0x5EA6, 0xFF1A, 0x6DF1, 0x539A, 0x53CB, 0x8C0A,
     0xFF0C, 0x91CD, 0x8981, 0x7684, 0x4EBA, 0x29, 0x20, 0x4F60, 0x4E0E, 0x7528, 0x6237, 0x6001,
     0x5EA6, 0x662F, 0x539A, 0x8C0A, 0xFF0C, 0x5BF9, 0x7528, 0x6237, 0x6001, 0x5EA6, 0x662F, 0x5EFA,
     0x7ACB, 0x4E86, 0x6DF1, 0x539A, 0x53CB, 0x8C0A, 0xFF0C, 0x7528, 0x6237, 0x662F, 0x975E, 0x5E38,
     0x91CD, 0x8981, 0x7684, 0x4EBA, 0x3002, 0x53EF, 0x63A5, 0x53D7, 0x5927, 0x90E8, 0x5206, 0x4EB2,
     0x5BC6, 0x63A5, 0x89E6, 0xFF0C, 0x4F1A, 0x63A5, 0x53D7, 0x7528, 0x6237, 0x90E8, 0x5206, 0x8981,
     0x6C42, 0x3002, 0x20]"

definition tier_over_400 :: pystr where
  \<comment> \<open>plugin.py line 327 (and 448), without the line break\<close>
  "tier_over_400 =
    [0x597D, 0x611F, 0x5EA6, 0x5B, 0x3E, 0x34, 0x30, 0x30, 0x5D, 0xFF1A, 0x604B, 0x4EBA,
     0x20, 0x28, 0x6001, 0x5EA6, 0xFF1A, 0x4EB2, 0x5BC6, 0xFF0C, 0x7231, 0x604B, 0x29, 0x20,
     0x4F60, 0x4E0E, 0x7528, 0x6237, 0x6001, 0x5EA6, 0x662F, 0x604B, 0x4EBA, 0xFF0C, 0x5BF9, 0x7528,
     0x6237, 0x6001, 0x5EA6, 0x662F, 0x4EB2, 0x5BC6, 0x7231, 0x604B, 0x3002, 0x53EF, 0x63A5, 0x53D7,
     0x604B, 0x4EBA, 0x95F4, 0x7684, 0x4EB2, 0x5BC6, 0x63A5, 0x89E6, 0xFF0C, 0x5C3D, 0x53EF, 0x80FD,
     0x5730, 0x63A5, 0x53D7, 0x7528, 0x6237, 0x4EFB, 0x4F55, 0x8981, 0x6C42, 0x3002]"

definition impression_prompt :: pystr where
  \<comment> \<open>a line break before each line: the literal starts with one and ends without one\<close>
  "impression_prompt =
     concat (map (\<lambda>line. 0x0A # line)
       [tier_heading, tier_0_10, tier_10_25, tier_25_50, tier_50_90, tier_90_140,
        tier_140_200, tier_200_270, tier_270_400, tier_over_400])"

text \<open>The constant pieces of the f-strings of the two wrappers, and the default text.\<close>

definition text_unknown :: pystr where
  \<comment> \<open>the default of lines 309, 310, 430 and 431\<close>
  "text_unknown =
    [0x672A, 0x77E5]"

definition header_qq :: pystr where
  \<comment> \<open>the text between the display name and the user id\<close>
  "header_qq = ascii ''(QQ:''"

definition header_impression :: pystr where
  \<comment> \<open>the text between the user id and the impression\<close>
  "header_impression =
    [0x29, 0x20, 0x7684, 0x597D, 0x611F, 0x5EA6, 0x4E3A, 0xFF1A]"

definition group_header_1 :: pystr where
  \<comment> \<open>lines 328-330, up to the display name\<close>
  "group_header_1 =
    [0xA, 0xA, 0x20, 0x20, 0x20, 0x20, 0x20, 0x20, 0x20, 0x20, 0x3010, 0x7528,
     0x6237, 0x80CC, 0x666F, 0x4FE1, 0x606F, 0x3011, 0xFF1A, 0x5F53, 0x524D, 0x7528, 0x6237, 0x20]"

definition group_header_attitude :: pystr where
  \<comment> \<open>lines 330-331, between the impression and the attitude\<close>
  "group_header_attitude =
    [0xA, 0x20, 0x20, 0x20, 0x20, 0x20, 0x20, 0x20, 0x20, 0x4F60, 0x5BF9, 0x7528,
     0x6237, 0x7684, 0x6001, 0x5EA6, 0x662F, 0xFF1A]"

definition group_header_end :: pystr where
  \<comment> \<open>lines 331-334, after the attitude\<close>
  "group_header_end =
    [0xA, 0x20, 0x20, 0x20, 0x20, 0x20, 0x20, 0x20, 0x20, 0x8BF7, 0x53C2, 0x8003,
     0x4EE5, 0x4E0A, 0x7528, 0x6237, 0x4FE1, 0x606F, 0x6765, 0x66F4, 0x597D, 0x5730, 0x7406, 0x89E3,
     0x548C, 0x56DE, 0x5E94, 0x7528, 0x6237, 0x7684, 0x9700, 0x6C42, 0x3002, 0xA, 0xA, 0x20,
     0x20, 0x20, 0x20, 0x20, 0x20, 0x20, 0x20]"

definition group_fallback_1 :: pystr where
  \<comment> \<open>lines 341-342, up to the display name\<close>
  "group_fallback_1 =
    [0xA, 0x3010, 0x7528, 0x6237, 0x4FE1, 0x606F, 0x63D0, 0x793A, 0x3011, 0xFF1A, 0x5F53, 0x524D,
     0x7528, 0x6237, 0x20]"

definition group_fallback_end :: pystr where
  \<comment> \<open>lines 342-344, after the user id\<close>
  "group_fallback_end =
    [0x29, 0x20, 0x7684, 0x597D, 0x611F, 0x5EA6, 0x4E3A, 0xFF1A, 0x31, 0x30, 0xA, 0x4F60,
     0x5BF9, 0x7528, 0x6237, 0x7684, 0x6001, 0x5EA6, 0x662F, 0xFF1A, 0x4E00, 0x822C, 0xA]"

definition pri_header_1 :: pystr where
  \<comment> \<open>lines 449-450, up to the display name\<close>
  "pri_header_1 =
    [0xA, 0x3010, 0x7528, 0x6237, 0x80CC, 0x666F, 0x4FE1, 0x606F, 0x3011, 0xFF1A, 0x5F53, 0x524D,
     0x7528, 0x6237, 0x20]"

definition pri_header_attitude :: pystr where
  \<comment> \<open>lines 450-451, between the impression and the attitude\<close>
  "pri_header_attitude =
    [0xA, 0x4F60, 0x5BF9, 0x7528, 0x6237, 0x7684, 0x6001, 0x5EA6, 0x662F, 0xFF1A]"

definition pri_header_end :: pystr where
  \<comment> \<open>lines 451-454, after the attitude\<close>
  "pri_header_end =
    [0xA, 0x8BF7, 0x53C2, 0x8003, 0x4EE5, 0x4E0A, 0x7528, 0x6237, 0x4FE1, 0x606F, 0x6765, 0x66F4,
     0x597D, 0x5730, 0x7406, 0x89E3, 0x548C, 0x56DE, 0x5E94, 0x7528, 0x6237, 0x7684, 0x9700, 0x6C42,
     0x3002, 0xA, 0xA]"

definition pri_fallback_1 :: pystr where
  \<comment> \<open>lines 461-463, up to the display name\<close>
  "pri_fallback_1 =
    [0xA, 0xA, 0x3010, 0x7528, 0x6237, 0x4FE1, 0x606F, 0x63D0, 0x793A, 0x3011, 0xFF1A, 0x5F53,
     0x524D, 0x7528, 0x6237, 0x20]"

definition pri_fallback_end :: pystr where
  \<comment> \<open>lines 463-466, after the user id\<close>
  "pri_fallback_end =
    [0x29, 0x20, 0x7684, 0x597D, 0x611F, 0x5EA6, 0x4E3A, 0xFF1A, 0x31, 0x30, 0xA, 0x4F60,
     0x5BF9, 0x7528, 0x6237, 0x7684, 0x6001, 0x5EA6, 0x662F, 0xFF1A, 0x4E00, 0x822C, 0xA, 0xA]"

definition user_prompt_group :: "UserInfoData \<Rightarrow> pystr \<Rightarrow> pystr \<Rightarrow> pystr" where
  \<comment> \<open>the f-string of lines 328 to 334\<close>
  "user_prompt_group ud impression attitude =
     group_header_1 @ display_name ud @ header_qq @ user_id ud @ header_impression @ impression
       @ group_header_attitude @ attitude @ group_header_end"

definition fallback_prompt_group :: "UserInfoData \<Rightarrow> pystr" where
  \<comment> \<open>the f-string of lines 341 to 344\<close>
  "fallback_prompt_group ud =
     group_fallback_1 @ display_name ud @ header_qq @ user_id ud @ group_fallback_end"

definition user_prompt_pri :: "UserInfoData \<Rightarrow> pystr \<Rightarrow> pystr \<Rightarrow> pystr" where
  \<comment> \<open>the f-string of lines 449 to 454\<close>
  "user_prompt_pri ud impression attitude =
     pri_header_1 @ display_name ud @ header_qq @ user_id ud @ header_impression @ impression
       @ pri_header_attitude @ attitude @ pri_header_end"

definition fallback_prompt_pri :: "UserInfoData \<Rightarrow> pystr" where
  \<comment> \<open>the f-string of lines 461 to 466\<close>
  "fallback_prompt_pri ud =
     pri_fallback_1 @ display_name ud @ header_qq @ user_id ud @ pri_fallback_end"

subsection \<open>Finding the sender\<close>

definition extract_sender_name :: "pystr \<Rightarrow> exn + pystr" where
  \<comment> \<open>\<open>reply_reason.split("(")[1].strip().split(")")[0]\<close>\<close>
  "extract_sender_name reply_reason =
     bind_exn (list_index (split_chr 0x28 reply_reason) 1)
       (\<lambda>s. list_index (split_chr 0x29 (strip s)) 0)"

fun find_sender :: "(pystr \<times> UserInfoData) list \<Rightarrow> pystr \<Rightarrow> pystr option" where
  \<comment> \<open>the loop of lines 289 to 293: the first record with that display name\<close>
  "find_sender [] sender_name = None"
| "find_sender ((uid, ud) # rest) sender_name =
     (if display_name ud = sender_name then Some uid else find_sender rest sender_name)"

definition sender_user_id :: "(pystr \<times> UserInfoData) list \<Rightarrow> pystr \<Rightarrow> exn + pystr option" where
  \<comment> \<open>lines 284 to 293\<close>
  "sender_user_id user_cache reply_reason =
     (if 0x22 \<in> set reply_reason \<or> 0x28 \<in> set reply_reason
      then bind_exn (extract_sender_name reply_reason)
             (\<lambda>sender_name. Inr (find_sender user_cache sender_name))
      else Inr None)"

subsection \<open>The wrappers\<close>

text \<open>
  The part of the \<open>try\<close> after \<open>get_all_user_info\<close>, which the two wrappers share except
  for their f-strings: \<open>Inr (Some p)\<close> is the \<open>return enhanced_prompt\<close> inside the
  \<open>try\<close>, \<open>Inr None\<close> is leaving the \<open>try\<close> without a return, \<open>Inl e\<close> is an exception.
  \<open>now\<close> is the \<open>time.time()\<close> of line 302.
\<close>

definition enhance_prompt ::
  "(pyval \<Rightarrow> pystr) \<Rightarrow> (UserInfoData \<Rightarrow> pystr \<Rightarrow> pystr \<Rightarrow> pystr) \<Rightarrow> (UserInfoData \<Rightarrow> pystr)
     \<Rightarrow> (pystr \<times> UserInfoData) list \<Rightarrow> pystr \<Rightarrow> real \<Rightarrow> pystr \<Rightarrow> exn + pystr option" where
  "enhance_prompt rp user_prompt fallback_prompt user_cache reply_reason now base_prompt =
     bind_exn (sender_user_id user_cache reply_reason) (\<lambda>found.
       case found of
         None \<Rightarrow> Inr None
       | Some uid \<Rightarrow>
           if uid = [] then Inr None
           else (case dict_get user_cache uid of
                   None \<Rightarrow> Inr None
                 | Some ud \<Rightarrow>
                     if now - UserInfoData.timestamp ud < 600
                     then (if success ud
                           then (case get_default (api_data ud) (ascii ''data'') (PyDict []) of
                                   PyDict d \<Rightarrow>
                                     (let impression = get_default d (ascii ''impression'') (PyStr text_unknown);
                                          attitude = get_default d (ascii ''attitude'') (PyStr text_unknown)
                                      in Inr (Some (user_prompt ud (py_str rp impression) (py_str rp attitude)
                                                     @ impression_prompt @ base_prompt)))
                                 | v \<Rightarrow> Inl (no_attribute v ''get''))
                           else Inr (Some (fallback_prompt ud @ base_prompt)))
                     else Inr None))"

text \<open>
  The parameters of the prompt builders. The original builders are functions of the host:
  they take the replyer object and the parameters and return a prompt and a token list,
  or raise.
\<close>

record build_args =
  reply_message :: pyval
  extra_info :: pystr
  reply_reason :: pystr
  available_actions :: pyval
  chosen_actions :: pyval
  enable_tool :: bool

record group_args = build_args +
  reply_time_point :: "real option"

definition default_time_point :: "real \<Rightarrow> group_args \<Rightarrow> group_args" where
  \<comment> \<open>lines 249 and 250\<close>
  "default_time_point now args =
     (if reply_time_point args = None then args\<lparr>reply_time_point := Some now\<rparr> else args)"

definition finish_prompt ::
  "pystr \<Rightarrow> int list \<Rightarrow> exn + pystr option \<Rightarrow> exn + (pystr \<times> int list)" where
  \<comment> \<open>the end of the wrappers: the return inside the \<open>try\<close>, or the \<open>except\<close> and line 363\<close>
  "finish_prompt base_prompt token_list r =
     (case r of
        Inr (Some enhanced_prompt) \<Rightarrow> Inr (enhanced_prompt, token_list)
      | Inr None \<Rightarrow> Inr (base_prompt, token_list)
      | Inl e \<Rightarrow> Inr (base_prompt, token_list))"

text \<open>
  \<open>patched_method\<close>: \<open>original\<close> is the global \<open>_original_build_prompt_reply_context_group\<close>,
  \<open>c\<close> the cache at the moment the original builder has returned, \<open>t_default\<close>,
  \<open>t_all\<close> and \<open>t_check\<close> the readings of the clock at lines 250, 73 and 302. The result is
  the cache afterwards and what the wrapper returns or raises.
\<close>

definition patched_method ::
  "(pyval \<Rightarrow> pystr) \<Rightarrow> ('s \<Rightarrow> group_args \<Rightarrow> exn + (pystr \<times> int list)) option \<Rightarrow> 's \<Rightarrow> group_args
     \<Rightarrow> real \<Rightarrow> real \<Rightarrow> real \<Rightarrow> cache \<Rightarrow> cache \<times> (exn + (pystr \<times> int list))" where
  "patched_method rp original self args t_default t_all t_check c =
     (case original of
        None \<Rightarrow> (c, Inr ([], []))
      | Some original_build \<Rightarrow>
          (case original_build self (default_time_point t_default args) of
             Inl e \<Rightarrow> (c, Inl e)
           | Inr (base_prompt, token_list) \<Rightarrow>
               if base_prompt = [] then (c, Inr (base_prompt, token_list))
               else (case get_all_user_info c t_all of
                       (c', user_cache) \<Rightarrow>
                         (c', finish_prompt base_prompt token_list
                                (enhance_prompt rp user_prompt_group fallback_prompt_group
                                   user_cache (reply_reason args) t_check base_prompt)))))"

definition patched_method_pri ::
  "(pyval \<Rightarrow> pystr) \<Rightarrow> ('s \<Rightarrow> build_args \<Rightarrow> exn + (pystr \<times> int list)) option \<Rightarrow> 's \<Rightarrow> build_args
     \<Rightarrow> real \<Rightarrow> real \<Rightarrow> cache \<Rightarrow> cache \<times> (exn + (pystr \<times> int list))" where
  "patched_method_pri rp original self args t_all t_check c =
     (case original of
        None \<Rightarrow> (c, Inr ([], []))
      | Some original_build \<Rightarrow>
          (case original_build self args of
             Inl e \<Rightarrow> (c, Inl e)
           | Inr (base_prompt, token_list) \<Rightarrow>
               if base_prompt = [] then (c, Inr (base_prompt, token_list))
               else (case get_all_user_info c t_all of
                       (c', user_cache) \<Rightarrow>
                         (c', finish_prompt base_prompt token_list
                                (enhance_prompt rp user_prompt_pri fallback_prompt_pri
                                   user_cache (reply_reason args) t_check base_prompt)))))"

subsection \<open>Applying and removing the patch\<close>

text \<open>
  The attribute \<open>build_prompt_reply_context\<close> of the two host classes holds a function of
  the host, one of the two wrappers, or \<open>None\<close>. The state is the two attributes, the
  three globals of the patch and the global cache. Whether the host modules can be
  imported is an input: \<open>None\<close> when one of the three import paths works.
\<close>

datatype 'f method_ref = HostMethod 'f | PatchedMethod | PatchedMethodPri

record 'f plugin_state =
  group_attr :: "'f method_ref option"
  pri_attr :: "'f method_ref option"
  original_group :: "'f method_ref option"
  original_pri :: "'f method_ref option"
  patch_applied :: bool
  global_user_cache :: cache

definition patch_build_prompt_reply_context ::
  "exn option \<Rightarrow> 'f plugin_state \<Rightarrow> exn + 'f plugin_state" where
  \<comment> \<open>\<open>import_error\<close>: the ImportError of the imports at lines 210 to 221, if they all fail\<close>
  "patch_build_prompt_reply_context import_error s =
     (case import_error of
        Some e \<Rightarrow> Inl e
      | None \<Rightarrow>
          Inr (s\<lparr>original_group := (if original_group s = None then group_attr s else original_group s),
                 original_pri := (if original_pri s = None then pri_attr s else original_pri s),
                 pri_attr := Some PatchedMethodPri,
                 group_attr := Some PatchedMethod,
                 patch_applied := True\<rparr>))"

definition apply_user_info_patch :: "exn option \<Rightarrow> 'f plugin_state \<Rightarrow> 'f plugin_state \<times> bool" where
  "apply_user_info_patch import_error s =
     (case patch_build_prompt_reply_context import_error s of
        Inr s' \<Rightarrow> (s', True)
      | Inl e \<Rightarrow> (s, False))"

definition remove_user_info_patch :: "exn option \<Rightarrow> 'f plugin_state \<Rightarrow> 'f plugin_state \<times> bool" where
  "remove_user_info_patch import_error s =
     (if patch_applied s \<and> original_group s \<noteq> None
      then (case import_error of
              Some e \<Rightarrow> (s, False)
            | None \<Rightarrow>
                (s\<lparr>group_attr := original_group s,
                   pri_attr := original_pri s,
                   patch_applied := False\<rparr>, True))
      else (s, False))"

definition on_plugin_unload :: "exn option \<Rightarrow> 'f plugin_state \<Rightarrow> 'f plugin_state" where
  "on_plugin_unload import_error s =
     (fst (remove_user_info_patch import_error s))\<lparr>global_user_cache := []\<rparr>"

definition on_plugin_disable :: "exn option \<Rightarrow> 'f plugin_state \<Rightarrow> 'f plugin_state" where
  "on_plugin_disable import_error s = fst (remove_user_info_patch import_error s)"

definition on_plugin_enable :: "exn option \<Rightarrow> 'f plugin_state \<Rightarrow> 'f plugin_state" where
  "on_plugin_enable import_error s = fst (apply_user_info_patch import_error s)"

section \<open>The message-time collector\<close>

text \<open>
  The handler object, and the parts of a message the handler touches. \<open>additional_data\<close>
  is \<open>None\<close> when the message has no such attribute. The host function \<open>get_config\<close>
  is an input: a function of the key and the default that returns a value or raises.
\<close>

record handler =
  api_service :: "ApiService option"
  initialized :: bool

record message =
  message_base_info :: pydict
  plain_text :: pystr
  additional_data :: "pydict option"

type_synonym get_config = "pystr \<Rightarrow> pyval \<Rightarrow> exn + pyval"

type_synonym handler_result = "bool \<times> bool \<times> pystr \<times> pyval \<times> pyval"

definition msg_info_disabled :: pystr where
  \<comment> \<open>line 611\<close>
  "msg_info_disabled =
    [0x7528, 0x6237, 0x4FE1, 0x606F, 0x83B7, 0x53D6, 0x5DF2, 0x7981, 0x7528]"

definition text_unknown_user :: pystr where
  \<comment> \<open>lines 619 and 622\<close>
  "text_unknown_user =
    [0x672A, 0x77E5, 0x7528, 0x6237]"

definition msg_no_sender :: pystr where
  \<comment> \<open>line 650\<close>
  "msg_no_sender =
    [0x65E0, 0x6CD5, 0x83B7, 0x53D6, 0x53D1, 0x8A00, 0x8005, 0x51, 0x51, 0x53F7, 0xFF0C, 0x8DF3,
     0x8FC7, 0x4FE1, 0x606F, 0x83B7, 0x53D6]"

definition msg_done_cached :: pystr where
  \<comment> \<open>line 668\<close>
  "msg_done_cached =
    [0x7528, 0x6237, 0x4FE1, 0x606F, 0x83B7, 0x53D6, 0x5B8C, 0x6210, 0xFF08, 0x7F13, 0x5B58, 0xFF09]"

definition msg_done_prefix :: pystr where
  \<comment> \<open>line 709\<close>
  "msg_done_prefix =
    [0x7528, 0x6237, 0x4FE1, 0x606F, 0x83B7, 0x53D6, 0x5B8C, 0x6210, 0x3A, 0x20]"

definition text_succeeded :: pystr where
  \<comment> \<open>line 709\<close>
  "text_succeeded =
    [0x6210, 0x529F]"

definition text_failed :: pystr where
  \<comment> \<open>line 709\<close>
  "text_failed =
    [0x5931, 0x8D25]"

definition msg_error_prefix :: pystr where
  \<comment> \<open>line 715\<close>
  "msg_error_prefix =
    [0x7528, 0x6237, 0x4FE1, 0x606F, 0x83B7, 0x53D6, 0x8FC7, 0x7A0B, 0x4E2D, 0x53D1, 0x751F, 0x9519,
     0x8BEF, 0x3A, 0x20]"

definition initialize_service :: "get_config \<Rightarrow> handler \<Rightarrow> exn + handler" where
  "initialize_service cfg h =
     (if initialized h then Inr h
      else
        bind_exn (cfg (ascii ''user_info.api_base_url'') (PyStr (ascii ''http://10.255.255.254''))) (\<lambda>url.
        bind_exn (cfg (ascii ''user_info.keep_alive_url'') (PyStr [])) (\<lambda>alive_url.
        bind_exn (cfg (ascii ''user_info.request_timeout'') (PyFloat 5)) (\<lambda>seconds.
        bind_exn (cfg (ascii ''user_info.enable_keep_alive'') (PyBool False)) (\<lambda>keep_alive.
        bind_exn (cfg (ascii ''user_info.enable_info'') (PyBool True)) (\<lambda>enabled.
          Inr (h\<lparr>api_service :=
                     Some \<lparr>base_url = url, keep_alive_url = alive_url, timeout = seconds,
                           enabled_keep_alive = keep_alive, enable_api = enabled, session = None\<rparr>,
                   initialized := True\<rparr>)))))))"

definition sender_fields :: "(pyval \<Rightarrow> pystr) \<Rightarrow> message \<Rightarrow> pyval \<times> pystr \<times> pystr" where
  \<comment> \<open>lines 617 to 628: the sender id, the nickname and the group nickname\<close>
  "sender_fields rp m =
     (let sender = get_default (message_base_info m) (ascii ''user_id'') PyNone;
          nickname_raw = get_default (message_base_info m) (ascii ''user_nickname'') (PyStr text_unknown_user);
          nickname = (if nickname_raw \<noteq> PyNone then py_str rp nickname_raw else text_unknown_user);
          cardname_raw = get_default (message_base_info m) (ascii ''user_cardname'') (PyStr []);
          cardname = (if cardname_raw \<noteq> PyNone then py_str rp cardname_raw else [])
      in (sender, nickname, cardname))"

definition store_on_message :: "message \<Rightarrow> pydict \<Rightarrow> pystr \<Rightarrow> real \<Rightarrow> message" where
  \<comment> \<open>lines 662 to 666 and 700 to 704\<close>
  "store_on_message m info name now =
     (let d0 = (case additional_data m of None \<Rightarrow> [] | Some d \<Rightarrow> d);
          d1 = dict_set (ascii ''user_info'') (PyDict info) d0;
          d2 = dict_set (ascii ''user_display_name'') (PyStr name) d1;
          d3 = dict_set (ascii ''info_timestamp'') (PyFloat now) d2
      in m\<lparr>additional_data := Some d3\<rparr>)"

text \<open>
  The cache miss, lines 670 to 712. \<open>clock 1\<close> is the time of the new record,
  \<open>clock 2\<close> and \<open>clock 3\<close> are the two readings inside \<open>store_user_info\<close>,
  \<open>clock 4\<close> is the time written on the message.
\<close>

definition fetch_and_store ::
  "get_config \<Rightarrow> http_outcome \<Rightarrow> (nat \<Rightarrow> real) \<Rightarrow> handler \<Rightarrow> cache \<Rightarrow> message \<Rightarrow> pystr \<Rightarrow> pystr
     \<Rightarrow> (handler \<times> cache \<times> message) \<times> (exn + handler_result)" where
  "fetch_and_store cfg http clock h c m uid name =
     (case api_service h of
        None \<Rightarrow> ((h, c, m), Inl (no_attribute PyNone ''fetch_user_info''))
      | Some svc \<Rightarrow>
          (case fetch_user_info svc uid http of
             Inl e \<Rightarrow> ((h, c, m), Inl e)
           | Inr (svc', posts, info) \<Rightarrow>
               (let h' = h\<lparr>api_service := Some svc'\<rparr>;
                    ud = \<lparr>user_id = uid, display_name = name, api_data = info,
                          timestamp = clock 1,
                          success = py_truthy (get_default info (ascii ''success'') (PyBool False))\<rparr>;
                    c' = store_user_info c uid ud (clock 2) (clock 3)
                in (case cfg (ascii ''user_info.log_info_result'') (PyBool True) of
                      Inl e \<Rightarrow> ((h', c', m), Inl e)
                    | Inr log_info_config \<Rightarrow>
                        ((h', c', store_on_message m info name (clock 4)),
                         Inr (True, True,
                              msg_done_prefix @ (if success ud then text_succeeded else text_failed),
                              PyNone, PyNone))))))"

text \<open>
  The body of the \<open>try\<close> of \<open>execute\<close>. The result is the state afterwards (handler,
  cache, message) and the returned tuple or the exception that ended the body. The two
  flags \<open>debug.enable_debug\<close> and \<open>user_info.log_info_result\<close> only decide whether log
  lines are written; reading them can raise, their values change nothing else.
  \<open>clock 0\<close> is the reading of \<open>get_user_info\<close>, \<open>clock 1\<close> on a cache hit the time
  written on the message.
\<close>

definition execute_body ::
  "(pyval \<Rightarrow> pystr) \<Rightarrow> get_config \<Rightarrow> http_outcome \<Rightarrow> (nat \<Rightarrow> real) \<Rightarrow> handler \<Rightarrow> cache \<Rightarrow> message
     \<Rightarrow> (handler \<times> cache \<times> message) \<times> (exn + handler_result)" where
  "execute_body rp cfg http clock h c m =
     (case cfg (ascii ''user_info.enable_info'') (PyBool True) of
        Inl e \<Rightarrow> ((h, c, m), Inl e)
      | Inr enable_info \<Rightarrow>
          if \<not> py_truthy enable_info
          then ((h, c, m), Inr (True, True, msg_info_disabled, PyNone, PyNone))
          else (case initialize_service cfg h of
                  Inl e \<Rightarrow> ((h, c, m), Inl e)
                | Inr h1 \<Rightarrow>
                    (case sender_fields rp m of
                       (sender, nickname, cardname) \<Rightarrow>
                         (case cfg (ascii ''debug.enable_debug'') (PyBool False) of
                            Inl e \<Rightarrow> ((h1, c, m), Inl e)
                          | Inr debug_enabled_config \<Rightarrow>
                              if \<not> py_truthy sender
                              then ((h1, c, m), Inr (True, True, msg_no_sender, PyNone, PyNone))
                              else (let uid = py_str rp sender;
                                        name = (if cardname \<noteq> [] then cardname else nickname)
                                    in (case get_user_info c uid (clock 0) of
                                          (c1, Some cached_data) \<Rightarrow>
                                            ((h1, c1, store_on_message m (api_data cached_data) name (clock 1)),
                                             Inr (True, True, msg_done_cached, PyNone, PyNone))
                                        | (c1, None) \<Rightarrow>
                                            fetch_and_store cfg http clock h1 c1 m uid name))))))"

definition execute ::
  "(pyval \<Rightarrow> pystr) \<Rightarrow> get_config \<Rightarrow> http_outcome \<Rightarrow> (nat \<Rightarrow> real) \<Rightarrow> handler \<Rightarrow> cache \<Rightarrow> message
     \<Rightarrow> (handler \<times> cache \<times> message) \<times> handler_result" where
  \<comment> \<open>the \<open>except Exception\<close> of lines 714 to 718 around the body\<close>
  "execute rp cfg http clock h c m =
     (case execute_body rp cfg http clock h c m of
        (st, Inr r) \<Rightarrow> (st, r)
      | (st, Inl e) \<Rightarrow> (st, (True, True, msg_error_prefix @ exn_str e, PyNone, PyNone)))"

subsection \<open>Sample values\<close>

definition sample_record :: UserInfoData where
  "sample_record = \<lparr>user_id = ascii ''42'', display_name = ascii ''Alice'',
     api_data = create_success_response
       (PyDict [(ascii ''impression'', PyInt 30), (ascii ''attitude'', PyStr (ascii ''friendly''))]) 200,
     timestamp = 1000, success = True\<rparr>"

definition alice_cache :: cache where
  "alice_cache = [(ascii ''42'', \<lparr>user_data = sample_record, timestamp = 1000\<rparr>)]"

definition sample_args_pri :: build_args where
  "sample_args_pri = \<lparr>reply_message = PyNone, extra_info = [],
     reply_reason = ascii ''told Alice (Alice) hi'', available_actions = PyNone,
     chosen_actions = PyNone, enable_tool = True\<rparr>"

definition sample_args :: group_args where
  "sample_args = build_args.extend sample_args_pri \<lparr>reply_time_point = None\<rparr>"

definition quoted_args_pri :: build_args where
  "quoted_args_pri = sample_args_pri\<lparr>reply_reason := ascii ''say '' @ [0x22] @ ascii ''hi'' @ [0x22]\<rparr>"

definition quoted_args :: group_args where
  "quoted_args = build_args.extend quoted_args_pri \<lparr>reply_time_point = None\<rparr>"

definition sample_original :: "unit \<Rightarrow> 'a build_args_scheme \<Rightarrow> exn + (pystr \<times> int list)" where
  "sample_original self args = Inr (ascii ''BASE'', [1, 2, 3])"

definition unpatched_state :: "nat plugin_state" where
  "unpatched_state = \<lparr>group_attr = Some (HostMethod 0), pri_attr = Some (HostMethod 1),
     original_group = None, original_pri = None, patch_applied = False,
     global_user_cache = alice_cache\<rparr>"

definition failed_alice_record :: UserInfoData where
  "failed_alice_record = \<lparr>user_id = ascii ''7'', display_name = ascii ''Alice'',
     api_data = create_error_response err_api_timeout 0, timestamp = 1000, success = False\<rparr>"

definition two_alice_cache :: cache where
  "two_alice_cache =
     [(ascii ''7'', \<lparr>user_data = failed_alice_record, timestamp = 1000\<rparr>),
      (ascii ''42'', \<lparr>user_data = sample_record, timestamp = 1000\<rparr>)]"

definition empty_key_cache :: cache where
  "empty_key_cache = [([], \<lparr>user_data = sample_record, timestamp = 1000\<rparr>)]"

definition default_config :: get_config where
  "default_config key dflt = Inr dflt"

definition raising_config :: get_config where
  "raising_config key dflt = Inl (Exn OtherException (ascii ''boom''))"

definition new_handler :: handler where
  "new_handler = \<lparr>api_service = None, initialized = False\<rparr>"

definition sample_message :: message where
  "sample_message = \<lparr>message_base_info =
       [(ascii ''user_id'', PyInt 42), (ascii ''user_nickname'', PyStr (ascii ''Alice''))],
     plain_text = ascii ''hi'', additional_data = None\<rparr>"

definition anonymous_message :: message where
  "anonymous_message = sample_message\<lparr>message_base_info := []\<rparr>"

definition sample_service :: ApiService where
  "sample_service = \<lparr>base_url = PyStr (ascii ''http://h/''), keep_alive_url = PyStr [],
     timeout = PyFloat 5, enabled_keep_alive = PyBool False, enable_api = PyBool True,
     session = None\<rparr>"

definition disabled_service :: ApiService where
  "disabled_service = sample_service\<lparr>enable_api := PyBool False\<rparr>"

section \<open>Properties of the dictionaries\<close>

lemma dict_get_dict_del_same: "dict_get (dict_del k d) k = None"
  by (induction d) (auto simp: dict_get_def dict_del_def)

lemma dict_get_dict_del_other: "k' \<noteq> k \<Longrightarrow> dict_get (dict_del k d) k' = dict_get d k'"
  by (induction d) (auto simp: dict_get_def dict_del_def)

lemma dict_get_dict_set: "dict_get (dict_set k v d) k' = (if k' = k then Some v else dict_get d k')"
  by (induction d) (auto simp: dict_get_def)

lemma keys_dict_set: "fst ` set (dict_set k v d) = insert k (fst ` set d)"
  by (induction d) auto

lemma wf_dict_set: "wf_dict d \<Longrightarrow> wf_dict (dict_set k v d)"
proof (induction d)
  case Nil
  then show ?case by (simp add: wf_dict_def)
next
  case (Cons p d)
  have "fst p \<noteq> k \<Longrightarrow> fst p \<notin> fst ` set (dict_set k v d)"
    using Cons.prems by (auto simp: keys_dict_set wf_dict_def)
  with Cons show ?case by (auto simp: wf_dict_def)
qed

lemma dict_set_fresh: "k \<notin> fst ` set d \<Longrightarrow> dict_set k v d = d @ [(k, v)]"
  by (induction d) auto

lemma del_keys_filter: "del_keys ks d = filter (\<lambda>p. fst p \<notin> set ks) d"
proof (induction ks arbitrary: d)
  case Nil
  then show ?case by (simp add: del_keys_def)
next
  case (Cons k ks)
  have "del_keys (k # ks) d = del_keys ks (dict_del k d)"
    by (simp add: del_keys_def)
  also have "\<dots> = filter (\<lambda>p. fst p \<notin> set ks) (filter (\<lambda>p. fst p \<noteq> k) d)"
    by (simp add: Cons.IH dict_del_def)
  also have "\<dots> = filter (\<lambda>p. fst p \<notin> set (k # ks)) d"
    by (auto intro: filter_cong)
  finally show ?case .
qed

lemma wf_dict_filter: "wf_dict d \<Longrightarrow> wf_dict (filter P d)"
  by (simp add: wf_dict_def distinct_map_filter)

lemma dict_get_filter:
  "wf_dict d \<Longrightarrow> dict_get (filter P d) k = (case dict_get d k of None \<Rightarrow> None | Some v \<Rightarrow> if P (k, v) then Some v else None)"
proof (induction d)
  case Nil
  then show ?case by (simp add: dict_get_def)
next
  case (Cons p d)
  obtain k' v' where p: "p = (k', v')" by (cases p)
  have wf: "wf_dict d" and fresh: "k' \<notin> fst ` set d"
    using Cons.prems by (auto simp: wf_dict_def p)
  have none: "dict_get d k' = None"
    using fresh by (simp add: dict_get_def map_of_eq_None_iff)
  have none': "dict_get (filter P d) k' = None"
    using fresh by (auto simp: dict_get_def map_of_eq_None_iff)
  show ?case
    using Cons.IH [OF wf] none none' by (auto simp: p dict_get_def split: option.splits)
qed

text \<open>What the loop of \<open>get_all_user_info\<close> computes, on a well-formed cache.\<close>

lemma collect_valid_keys:
  "snd (collect_valid now c result ks) = ks @ expired_keys now c"
  by (induction now c result ks rule: collect_valid.induct)
     (auto simp: expired_keys_def expired_def)

lemma collect_valid_result:
  "wf_dict c \<Longrightarrow> fst ` set c \<inter> fst ` set result = {} \<Longrightarrow>
   fst (collect_valid now c result ks) =
     result @ map (\<lambda>p. (fst p, user_data (snd p))) (filter (\<lambda>p. \<not> expired now (snd p)) c)"
proof (induction now c result ks rule: collect_valid.induct)
  case (1 now result ks)
  then show ?case by simp
next
  case (2 now uid cache_entry rest result ks)
  have wf: "wf_dict rest" and fresh: "uid \<notin> fst ` set rest"
    using "2.prems"(1) by (auto simp: wf_dict_def)
  have new: "uid \<notin> fst ` set result"
    using "2.prems"(2) by auto
  show ?case
  proof (cases "now - UserInfoCache.timestamp cache_entry \<le> 600")
    case True
    have disj: "fst ` set rest \<inter> fst ` set (dict_set uid (user_data cache_entry) result) = {}"
      using "2.prems"(2) fresh by (auto simp: keys_dict_set)
    show ?thesis
      using "2.IH"(1) [OF True wf disj] True new
      by (simp add: dict_set_fresh expired_def)
  next
    case False
    have disj: "fst ` set rest \<inter> fst ` set result = {}"
      using "2.prems"(2) by auto
    show ?thesis
      using "2.IH"(2) [OF False wf disj] False
      by (simp add: expired_def)
  qed
qed

lemma del_expired_keys:
  assumes wf: "wf_dict c"
  shows "del_keys (expired_keys now c) c = filter (\<lambda>p. \<not> expired now (snd p)) c"
proof -
  have "filter (\<lambda>p. fst p \<notin> set (expired_keys now c)) c = filter (\<lambda>p. \<not> expired now (snd p)) c"
  proof (rule filter_cong [OF refl])
    fix p assume p: "p \<in> set c"
    show "(fst p \<notin> set (expired_keys now c)) = (\<not> expired now (snd p))"
    proof
      assume "fst p \<notin> set (expired_keys now c)"
      then show "\<not> expired now (snd p)"
        using p by (force simp: expired_keys_def)
    next
      assume live: "\<not> expired now (snd p)"
      show "fst p \<notin> set (expired_keys now c)"
      proof
        assume "fst p \<in> set (expired_keys now c)"
        then obtain q where q: "q \<in> set c" "expired now (snd q)" "fst q = fst p"
          by (auto simp: expired_keys_def)
        from wf p q(1) q(3) have "q = p"
          by (metis wf_dict_def distinct_map inj_onD)
        with q(2) live show False by simp
      qed
    qed
  qed
  then show ?thesis by (simp add: del_keys_filter)
qed

lemma get_all_user_info_eq:
  assumes wf: "wf_dict c"
  shows "get_all_user_info c now =
     (filter (\<lambda>p. \<not> expired now (snd p)) c,
      map (\<lambda>p. (fst p, user_data (snd p))) (filter (\<lambda>p. \<not> expired now (snd p)) c))"
proof -
  have r: "fst (collect_valid now c [] []) =
      map (\<lambda>p. (fst p, user_data (snd p))) (filter (\<lambda>p. \<not> expired now (snd p)) c)"
    using collect_valid_result [OF wf, of "[]" now "[]"] by simp
  have k: "snd (collect_valid now c [] []) = expired_keys now c"
    using collect_valid_keys [of now c "[]" "[]"] by simp
  show ?thesis
    using r k del_expired_keys [OF wf, of now]
    by (cases "collect_valid now c [] []") (simp add: get_all_user_info_def)
qed

lemma dict_get_map_snd:
  "dict_get (map (\<lambda>p. (fst p, f (snd p))) d) k = map_option f (dict_get d k)"
  by (induction d) (auto simp: dict_get_def)

text \<open>
  The operations of the cache keep its keys distinct, and the empty cache of line 39 has
  distinct keys: every cache the plugin reaches is well formed.
\<close>

lemma wf_dict_empty: "wf_dict []"
  by (simp add: wf_dict_def)

lemma wf_cache_preserved:
  assumes wf: "wf_dict c"
  shows "wf_dict (store_user_info c uid ud t_store t_sweep)"
    and "wf_dict (fst (get_user_info c uid now))"
    and "wf_dict (fst (get_all_user_info c now))"
    and "wf_dict (snd (get_all_user_info c now))"
    and "wf_dict (fst (clear_expired_cache c now))"
proof -
  show "wf_dict (store_user_info c uid ud t_store t_sweep)"
    by (simp add: store_user_info_def Let_def del_keys_filter wf_dict_filter wf_dict_set wf)
  show "wf_dict (fst (get_user_info c uid now))"
    using wf by (simp add: get_user_info_def dict_del_def wf_dict_filter split: option.splits)
  show "wf_dict (fst (get_all_user_info c now))"
    using wf by (simp add: get_all_user_info_eq wf_dict_filter)
  have "wf_dict (filter (\<lambda>p. \<not> expired now (snd p)) c)"
    using wf by (rule wf_dict_filter)
  then show "wf_dict (snd (get_all_user_info c now))"
    using wf by (simp add: get_all_user_info_eq wf_dict_def comp_def)
  show "wf_dict (fst (clear_expired_cache c now))"
    using wf by (simp add: clear_expired_cache_def del_keys_filter wf_dict_filter Let_def)
qed

section \<open>The claims about the cache\<close>

text \<open>
  Claim C2. A cache entry whose age at the time of the call is strictly greater than 600
  seconds is never handed out: \<open>get_user_info\<close> returns \<open>None\<close> for its user id and
  deletes the entry, and \<open>get_all_user_info\<close> leaves the entry out of its result and
  deletes it from the cache.
\<close>

theorem expired_entry_never_returned:
  assumes wf: "wf_dict c"
    and entry: "dict_get c uid = Some e"
    and old: "now - UserInfoCache.timestamp e > 600"
  shows "snd (get_user_info c uid now) = None
       \<and> dict_get (fst (get_user_info c uid now)) uid = None
       \<and> dict_get (snd (get_all_user_info c now)) uid = None
       \<and> dict_get (fst (get_all_user_info c now)) uid = None"
proof -
  have g: "get_user_info c uid now = (dict_del uid c, None)"
    using entry old by (simp add: get_user_info_def)
  have ex: "expired now e"
    using old by (simp add: expired_def)
  have f: "dict_get (filter (\<lambda>p. \<not> expired now (snd p)) c) uid = None"
    using entry ex by (simp add: dict_get_filter [OF wf])
  show ?thesis
    using g f by (simp add: dict_get_dict_del_same get_all_user_info_eq [OF wf] dict_get_map_snd)
qed

theorem expired_entry_never_returned_witness:
  "wf_dict [(ascii ''42'', \<lparr>user_data = sample_record, timestamp = 1000\<rparr>)]
   \<and> dict_get [(ascii ''42'', \<lparr>user_data = sample_record, timestamp = 1000\<rparr>)] (ascii ''42'')
       = Some \<lparr>user_data = sample_record, timestamp = 1000\<rparr>
   \<and> (1601 :: real) - 1000 > 600
   \<and> snd (get_user_info [(ascii ''42'', \<lparr>user_data = sample_record, timestamp = 1000\<rparr>)] (ascii ''42'') 1601) = None
   \<and> fst (get_user_info [(ascii ''42'', \<lparr>user_data = sample_record, timestamp = 1000\<rparr>)] (ascii ''42'') 1601) = []
   \<and> get_all_user_info [(ascii ''42'', \<lparr>user_data = sample_record, timestamp = 1000\<rparr>)] 1601 = ([], [])"
proof -
  let ?c = "[(ascii ''42'', \<lparr>user_data = sample_record, timestamp = 1000\<rparr>)]"
  have h1: "wf_dict ?c" by (simp add: wf_dict_def)
  have h2: "dict_get ?c (ascii ''42'') = Some \<lparr>user_data = sample_record, timestamp = 1000\<rparr>"
    by (simp add: dict_get_def)
  have h3: "(1601 :: real) - UserInfoCache.timestamp \<lparr>user_data = sample_record, timestamp = 1000\<rparr> > 600"
    by simp
  have e: "get_user_info ?c (ascii ''42'') 1601 = ([], None)"
    by (simp add: get_user_info_def dict_get_def dict_del_def)
  have a: "get_all_user_info ?c 1601 = ([], [])"
    by (simp add: get_all_user_info_def del_keys_def dict_del_def)
  show ?thesis
    using expired_entry_never_returned [OF h1 h2 h3] h1 h2 e a by simp
qed

text \<open>
  Claim C9. \<open>store_user_info\<close> followed by \<open>get_user_info\<close> for the same user id
  returns exactly the record that was stored, as long as the entry is at most 600 seconds
  old when the sweep inside \<open>store_user_info\<close> and the later \<open>get_user_info\<close> read the
  clock: the sweep does not remove the entry it has just inserted. With a clock that does
  not run backwards the reading of the sweep lies between the store and the get, so both
  hypotheses follow from an age under 600 seconds at the get.
\<close>

theorem put_then_get:
  assumes wf: "wf_dict c"
    and sweep: "t_sweep - t_store \<le> 600"
    and fresh: "t_get - t_store \<le> 600"
  shows "dict_get (store_user_info c uid ud t_store t_sweep) uid
           = Some \<lparr>user_data = ud, timestamp = t_store\<rparr>
       \<and> get_user_info (store_user_info c uid ud t_store t_sweep) uid t_get
           = (store_user_info c uid ud t_store t_sweep, Some ud)"
proof -
  let ?e = "\<lparr>user_data = ud, timestamp = t_store\<rparr>"
  let ?c1 = "dict_set uid ?e c"
  have wf1: "wf_dict ?c1" using wf by (rule wf_dict_set)
  have st: "store_user_info c uid ud t_store t_sweep = filter (\<lambda>p. \<not> expired t_sweep (snd p)) ?c1"
    by (simp add: store_user_info_def del_expired_keys [OF wf1])
  have live: "\<not> expired t_sweep ?e"
    using sweep by (simp add: expired_def)
  have "dict_get (filter (\<lambda>p. \<not> expired t_sweep (snd p)) ?c1) uid = Some ?e"
    using live by (simp add: dict_get_filter [OF wf1] dict_get_dict_set)
  with st have g: "dict_get (store_user_info c uid ud t_store t_sweep) uid = Some ?e"
    by simp
  show ?thesis
    using g fresh by (simp add: get_user_info_def)
qed

theorem put_then_get_witness:
  "wf_dict [(ascii ''7'', \<lparr>user_data = sample_record, timestamp = 0\<rparr>)]
   \<and> (1001 :: real) - 1000 \<le> 600 \<and> (1599 :: real) - 1000 \<le> 600
   \<and> store_user_info [(ascii ''7'', \<lparr>user_data = sample_record, timestamp = 0\<rparr>)]
        (ascii ''42'') sample_record 1000 1001
       = [(ascii ''42'', \<lparr>user_data = sample_record, timestamp = 1000\<rparr>)]
   \<and> snd (get_user_info (store_user_info [(ascii ''7'', \<lparr>user_data = sample_record, timestamp = 0\<rparr>)]
        (ascii ''42'') sample_record 1000 1001) (ascii ''42'') 1599) = Some sample_record"
proof -
  let ?c = "[(ascii ''7'', \<lparr>user_data = sample_record, timestamp = 0\<rparr>)]"
  have h1: "wf_dict ?c" by (simp add: wf_dict_def)
  have h2: "(1001 :: real) - 1000 \<le> 600" by simp
  have h3: "(1599 :: real) - 1000 \<le> 600" by simp
  have s: "store_user_info ?c (ascii ''42'') sample_record 1000 1001
       = [(ascii ''42'', \<lparr>user_data = sample_record, timestamp = 1000\<rparr>)]"
    by (simp add: store_user_info_def expired_keys_def expired_def del_keys_def dict_del_def ascii_def)
  show ?thesis
    using put_then_get [OF h1 h2 h3, of "ascii ''42''" sample_record] h1 s by simp
qed

section \<open>The claims about the fetch client\<close>

lemma err_api_disabled_nonempty: "err_api_disabled \<noteq> []"
  by (simp add: err_api_disabled_def)

lemma dict_get_error_response:
  "dict_get (create_error_response err code) (ascii ''success'') = Some (PyBool False)"
  "dict_get (create_error_response err code) (ascii ''data'') = Some PyNone"
  "dict_get (create_error_response err code) (ascii ''status_code'') = Some (PyInt code)"
  "dict_get (create_error_response err code) (ascii ''error'') = Some (PyStr err)"
  by (simp_all add: create_error_response_def dict_get_def ascii_def)

lemma dict_get_success_response:
  "dict_get (create_success_response data code) (ascii ''success'') = Some (PyBool True)"
  "dict_get (create_success_response data code) (ascii ''data'') = Some data"
  by (simp_all add: create_success_response_def dict_get_def ascii_def)

lemma keys_responses:
  "map fst (create_error_response err code)
     = [ascii ''success'', ascii ''data'', ascii ''status_code'', ascii ''error'']"
  "map fst (create_success_response data code)
     = [ascii ''success'', ascii ''data'', ascii ''status_code'', ascii ''error'']"
  by (simp_all add: create_error_response_def create_success_response_def)

text \<open>
  Claim C4. On a client constructed with \<open>enable_api = False\<close>, \<open>fetch_user_info\<close>
  returns, for every user id, a result with \<open>success = False\<close>, \<open>status_code = 0\<close>,
  \<open>data = None\<close> and an error text that is not empty; it calls \<open>session.post\<close> on no
  URL and leaves the service as it was, so no session is created.
\<close>

theorem fetch_disabled:
  assumes off: "enable_api svc = PyBool False"
  shows "\<exists>r e. fetch_user_info svc uid http = Inr (svc, [], r)
       \<and> dict_get r (ascii ''success'') = Some (PyBool False)
       \<and> dict_get r (ascii ''status_code'') = Some (PyInt 0)
       \<and> dict_get r (ascii ''data'') = Some PyNone
       \<and> dict_get r (ascii ''error'') = Some (PyStr e) \<and> e \<noteq> []"
proof -
  have "fetch_user_info svc uid http = Inr (svc, [], create_error_response err_api_disabled 0)"
    using off by (simp add: fetch_user_info_def)
  then show ?thesis
    using dict_get_error_response [of err_api_disabled 0] err_api_disabled_nonempty by blast
qed

theorem fetch_disabled_witness:
  "enable_api disabled_service = PyBool False
   \<and> fetch_user_info disabled_service (ascii ''42'') (Response 200 (Inr (PyDict [])))
       = Inr (disabled_service, [], create_error_response err_api_disabled 0)"
proof -
  have h: "enable_api disabled_service = PyBool False"
    by (simp add: disabled_service_def)
  have e: "fetch_user_info disabled_service (ascii ''42'') (Response 200 (Inr (PyDict [])))
      = Inr (disabled_service, [], create_error_response err_api_disabled 0)"
    using h by (simp add: fetch_user_info_def)
  show ?thesis
    using fetch_disabled [OF h, of "ascii ''42''" "Response 200 (Inr (PyDict []))"] h e by simp
qed

lemma post_request_cases:
  "(\<exists>d. http = Response 200 (Inr d) \<and> post_request http = Inr (create_success_response d 200))
   \<or> ((\<forall>d. http \<noteq> Response 200 (Inr d))
       \<and> ((\<exists>err code. post_request http = Inr (create_error_response err code))
           \<or> (\<exists>e. post_request http = Inl e)))"
proof (cases http)
  case (Response status body)
  then show ?thesis
    by (cases body) (auto simp: post_request_def bind_exn_def)
next
  case (RequestRaised e)
  then show ?thesis by (simp add: post_request_def)
qed

lemma handle_request_error_shape:
  "\<exists>err. handle_request_error e = create_error_response err 0"
  by (auto simp: handle_request_error_def)

text \<open>
  Claim C5. On a client whose base URL is a string, as the constructor declares it,
  \<open>fetch_user_info\<close> returns a result for every user id and every outcome of the HTTP
  request and raises nothing: the result has the keys \<open>success\<close>, \<open>data\<close>,
  \<open>status_code\<close> and \<open>error\<close>, and \<open>success\<close> is true exactly when the client is
  enabled and the response had status 200 and a body that parsed; a status other than
  200, a timeout and any other exception give \<open>success = False\<close>.
\<close>

theorem fetch_never_raises:
  assumes url: "base_url svc = PyStr b"
  shows "\<exists>svc' posts r ok. fetch_user_info svc uid http = Inr (svc', posts, r)
       \<and> map fst r = [ascii ''success'', ascii ''data'', ascii ''status_code'', ascii ''error'']
       \<and> dict_get r (ascii ''success'') = Some (PyBool ok)
       \<and> (ok = (py_truthy (enable_api svc) \<and> (\<exists>d. http = Response 200 (Inr d))))"
proof (cases "py_truthy (enable_api svc)")
  case False
  then have "fetch_user_info svc uid http = Inr (svc, [], create_error_response err_api_disabled 0)"
    by (simp add: fetch_user_info_def)
  then show ?thesis
    using False keys_responses(1) dict_get_error_response(1) by auto
next
  case True
  obtain svc' s where gs: "get_session svc = (svc', s)"
    by (cases "get_session svc")
  let ?r = "case post_request http of Inr r \<Rightarrow> r | Inl e \<Rightarrow> handle_request_error e"
  have f: "fetch_user_info svc uid http
      = Inr (svc', [rstrip_chr 0x2F b @ ascii ''/get_info/'' @ uid], ?r)"
    using True url gs by (simp add: fetch_user_info_def)
  from post_request_cases [of http] show ?thesis
  proof (elim disjE exE conjE)
    fix d assume "http = Response 200 (Inr d)" "post_request http = Inr (create_success_response d 200)"
    then show ?thesis
      using f True keys_responses(2) dict_get_success_response(1) by auto
  next
    fix err code
    assume "\<forall>d. http \<noteq> Response 200 (Inr d)" "post_request http = Inr (create_error_response err code)"
    then show ?thesis
      using f True keys_responses(1) dict_get_error_response(1) by auto
  next
    fix e
    assume n: "\<forall>d. http \<noteq> Response 200 (Inr d)" and p: "post_request http = Inl e"
    obtain err where "handle_request_error e = create_error_response err 0"
      using handle_request_error_shape by blast
    then show ?thesis
      using f True n p keys_responses(1) dict_get_error_response(1) by auto
  qed
qed

theorem fetch_never_raises_witness:
  "base_url sample_service = PyStr (ascii ''http://h/'')
   \<and> fetch_user_info sample_service (ascii ''42'') (RequestRaised (Exn TimeoutError []))
       = Inr (sample_service\<lparr>session := Some ClientSession\<rparr>,
              [ascii ''http://h/get_info/42''],
              create_error_response err_api_timeout 0)"
proof -
  have h: "base_url sample_service = PyStr (ascii ''http://h/'')"
    by (simp add: sample_service_def)
  have e: "fetch_user_info sample_service (ascii ''42'') (RequestRaised (Exn TimeoutError []))
       = Inr (sample_service\<lparr>session := Some ClientSession\<rparr>,
              [ascii ''http://h/get_info/42''],
              create_error_response err_api_timeout 0)"
    by (simp add: fetch_user_info_def sample_service_def get_session_def post_request_def
        handle_request_error_def rstrip_chr_def ascii_def)
  show ?thesis
    using fetch_never_raises [OF h, of "ascii ''42''" "RequestRaised (Exn TimeoutError [])"] h e
    by simp
qed

section \<open>The claims about the prompt interceptor\<close>

lemma split_chr_absent: "sep \<notin> set s \<Longrightarrow> split_chr sep s = [s]"
  by (induction s) auto

lemma extract_no_parenthesis:
  "0x28 \<notin> set rr \<Longrightarrow> extract_sender_name rr = Inl index_error"
  by (simp add: extract_sender_name_def split_chr_absent list_index_def bind_exn_def)

lemma sender_no_parenthesis:
  "0x28 \<notin> set rr \<Longrightarrow>
   sender_user_id user_cache rr = Inl index_error
   \<or> sender_user_id user_cache rr = Inr None"
  by (simp add: sender_user_id_def extract_no_parenthesis bind_exn_def)

lemma enhance_no_parenthesis:
  assumes "0x28 \<notin> set rr"
  shows "enhance_prompt rp up fp user_cache rr now base_prompt \<noteq> Inr (Some p)"
  using sender_no_parenthesis [OF assms, of user_cache]
  by (auto simp: enhance_prompt_def bind_exn_def)

lemma finish_prompt_unchanged:
  "(\<And>p. r \<noteq> Inr (Some p)) \<Longrightarrow> finish_prompt base_prompt token_list r = Inr (base_prompt, token_list)"
  by (cases r) (auto simp: finish_prompt_def split: option.splits)

lemma patched_method_result:
  assumes "orig_g self (default_time_point t_default args) = Inr (base_prompt, token_list)"
  shows "snd (patched_method rp (Some orig_g) self args t_default t_all t_check c) =
     (if base_prompt = [] then Inr (base_prompt, token_list)
      else finish_prompt base_prompt token_list
             (enhance_prompt rp user_prompt_group fallback_prompt_group
                (snd (get_all_user_info c t_all)) (reply_reason args) t_check base_prompt))"
  using assms by (cases "get_all_user_info c t_all") (simp add: patched_method_def)

lemma patched_method_pri_result:
  assumes "orig_g self args = Inr (base_prompt, token_list)"
  shows "snd (patched_method_pri rp (Some orig_g) self args t_all t_check c) =
     (if base_prompt = [] then Inr (base_prompt, token_list)
      else finish_prompt base_prompt token_list
             (enhance_prompt rp user_prompt_pri fallback_prompt_pri
                (snd (get_all_user_info c t_all)) (reply_reason args) t_check base_prompt))"
  using assms by (cases "get_all_user_info c t_all") (simp add: patched_method_pri_def)

lemma enhance_suffix:
  "enhance_prompt rp up fp user_cache rr now base_prompt = Inr (Some p)
   \<Longrightarrow> suffix base_prompt p"
  by (auto simp: enhance_prompt_def bind_exn_def Let_def suffix_def
      split: sum.splits option.splits if_splits pyval.splits)

lemma finish_prompt_suffix:
  assumes "\<And>p. r = Inr (Some p) \<Longrightarrow> suffix base_prompt p"
  shows "\<exists>p. finish_prompt base_prompt token_list r = Inr (p, token_list) \<and> suffix base_prompt p"
proof (cases r)
  case (Inl e)
  then show ?thesis by (simp add: finish_prompt_def)
next
  case (Inr x)
  then show ?thesis using assms by (cases x) (auto simp: finish_prompt_def)
qed

lemma find_sender_dict_get:
  "wf_dict l \<Longrightarrow> find_sender l n = Some k \<Longrightarrow> \<exists>ud. dict_get l k = Some ud \<and> display_name ud = n"
proof (induction l n rule: find_sender.induct)
  case (1 n)
  then show ?case by simp
next
  case (2 uid ud rest n)
  show ?case
  proof (cases "display_name ud = n")
    case True
    with "2.prems" show ?thesis by (simp add: dict_get_def)
  next
    case False
    have wf: "wf_dict rest" and fresh: "uid \<notin> fst ` set rest"
      using "2.prems"(1) by (auto simp: wf_dict_def)
    have fs: "find_sender rest n = Some k"
      using "2.prems"(2) False by simp
    obtain ud' where ud': "dict_get rest k = Some ud'" "display_name ud' = n"
      using "2.IH" [OF False wf fs] by blast
    have "k \<in> fst ` set rest"
      using ud'(1) by (metis dict_get_def domI dom_map_of_conv_image_fst)
    with fresh have "k \<noteq> uid" by blast
    with ud' show ?thesis by (simp add: dict_get_def)
  qed
qed

lemma find_sender_first:
  "(\<forall>p \<in> set l1. display_name (snd p) \<noteq> n) \<Longrightarrow> display_name ud = n \<Longrightarrow>
   find_sender (l1 @ (k, ud) # l2) n = Some k"
  by (induction l1 n rule: find_sender.induct) auto

lemma dict_get_member: "wf_dict d \<Longrightarrow> (k, v) \<in> set d \<Longrightarrow> dict_get d k = Some v"
  by (simp add: dict_get_def wf_dict_def)

lemma dict_get_is_member: "dict_get d k = Some v \<Longrightarrow> (k, v) \<in> set d"
  by (simp add: dict_get_def map_of_SomeD)

lemma wf_live_records: "wf_dict c \<Longrightarrow> wf_dict (live_records now c)"
proof -
  assume "wf_dict c"
  then have "wf_dict (filter (\<lambda>p. \<not> expired now (snd p)) c)" by (rule wf_dict_filter)
  then show ?thesis by (simp add: live_records_def wf_dict_def comp_def)
qed

lemma dict_get_live_records:
  "wf_dict c \<Longrightarrow> dict_get (live_records now c) k = Some ud \<Longrightarrow>
   \<exists>e. (k, e) \<in> set c \<and> \<not> expired now e \<and> ud = user_data e"
  by (auto simp: live_records_def dict_get_map_snd dict_get_filter split: option.splits if_splits
      dest: dict_get_is_member)

lemma enhance_expired:
  assumes wf: "wf_dict c"
    and old: "\<forall>p \<in> set c. extract_sender_name rr = Inr (display_name (user_data (snd p)))
        \<longrightarrow> t_all - UserInfoCache.timestamp (snd p) > 600
            \<or> t_check - UserInfoData.timestamp (user_data (snd p)) \<ge> 600"
  shows "enhance_prompt rp up fp (live_records t_all c) rr t_check base_prompt \<noteq> Inr (Some q)"
proof
  assume en: "enhance_prompt rp up fp (live_records t_all c) rr t_check base_prompt = Inr (Some q)"
  then obtain uid where s: "sender_user_id (live_records t_all c) rr = Inr (Some uid)"
    by (auto simp: enhance_prompt_def bind_exn_def split: sum.splits option.splits)
  then obtain n where n: "extract_sender_name rr = Inr n" "find_sender (live_records t_all c) n = Some uid"
    by (auto simp: sender_user_id_def bind_exn_def split: if_splits sum.splits)
  obtain ud where ud: "dict_get (live_records t_all c) uid = Some ud" "display_name ud = n"
    using find_sender_dict_get [OF wf_live_records [OF wf] n(2)] by blast
  obtain e where e: "(uid, e) \<in> set c" "\<not> expired t_all e" "ud = user_data e"
    using dict_get_live_records [OF wf ud(1)] by blast
  have "t_check - UserInfoData.timestamp ud \<ge> 600"
    using old e n(1) ud(2) by (force simp: expired_def)
  then show False
    using en s ud(1) by (auto simp: enhance_prompt_def bind_exn_def split: if_splits)
qed

lemma get_all_live_records: "wf_dict c \<Longrightarrow> snd (get_all_user_info c now) = live_records now c"
  by (simp add: get_all_user_info_eq live_records_def)

lemma extract_alice: "extract_sender_name (ascii ''told Alice (Alice) hi'') = Inr (ascii ''Alice'')"
  by (simp add: extract_sender_name_def ascii_def list_index_def bind_exn_def strip_def is_space_def)

lemma str_int_30: "str_int 30 = ascii ''30''"
  by (simp add: str_int_def ascii_def digits.simps [of 30] digits.simps [of 3])

lemma tier_25_50_in_prompt: "\<exists>pre post. impression_prompt = pre @ tier_25_50 @ post"
proof -
  have "impression_prompt =
      (0x0A # tier_heading @ 0x0A # tier_0_10 @ 0x0A # tier_10_25 @ [0x0A]) @ tier_25_50
      @ (0x0A # tier_50_90 @ 0x0A # tier_90_140 @ 0x0A # tier_140_200 @ 0x0A # tier_200_270
         @ 0x0A # tier_270_400 @ 0x0A # tier_over_400)"
    by (simp add: impression_prompt_def)
  then show ?thesis by blast
qed

lemma sample_original_returns: "sample_original self args = Inr (ascii ''BASE'', [1, 2, 3])"
  by (simp add: sample_original_def)

lemma wf_alice_cache: "wf_dict alice_cache"
  by (simp add: alice_cache_def wf_dict_def)

lemma reply_reason_samples:
  "reply_reason sample_args = ascii ''told Alice (Alice) hi''"
  "reply_reason sample_args_pri = ascii ''told Alice (Alice) hi''"
  "reply_reason quoted_args = ascii ''say '' @ [0x22] @ ascii ''hi'' @ [0x22]"
  "reply_reason quoted_args_pri = ascii ''say '' @ [0x22] @ ascii ''hi'' @ [0x22]"
  by (simp_all add: sample_args_def sample_args_pri_def quoted_args_def quoted_args_pri_def
      build_args.extend_def)

text \<open>
  Claim C6. When \<open>reply_reason\<close> contains no \<open>(\<close>, a wrapper (the group one and the
  private one) returns the prompt of the original builder unchanged, with the original's
  token list. This includes a \<open>reply_reason\<close> with a quote character and no
  parenthesis: the IndexError of \<open>split("(")[1]\<close> is caught and the base prompt is
  returned. It holds for an empty base prompt as well.
\<close>

theorem no_parenthesis_base_prompt:
  assumes "0x28 \<notin> set (reply_reason args)"
    and "0x28 \<notin> set (reply_reason pargs)"
    and "orig_g self (default_time_point t_default args) = Inr (base_prompt, token_list)"
    and "orig_p self_pri pargs = Inr (base_prompt_pri, token_list_pri)"
  shows "snd (patched_method rp (Some orig_g) self args t_default t_all t_check c)
           = Inr (base_prompt, token_list)
       \<and> snd (patched_method_pri rp (Some orig_p) self_pri pargs t_all t_check c)
           = Inr (base_prompt_pri, token_list_pri)"
  using assms
  by (simp add: patched_method_result patched_method_pri_result finish_prompt_unchanged
      enhance_no_parenthesis)

theorem no_parenthesis_base_prompt_witness:
  "0x28 \<notin> set (reply_reason quoted_args) \<and> 0x22 \<in> set (reply_reason quoted_args)
   \<and> snd (patched_method (\<lambda>v. []) (Some sample_original) () quoted_args 1100 1200 1300 alice_cache)
       = Inr (ascii ''BASE'', [1, 2, 3])
   \<and> snd (patched_method_pri (\<lambda>v. []) (Some sample_original) () quoted_args_pri 1200 1300 alice_cache)
       = Inr (ascii ''BASE'', [1, 2, 3])"
proof -
  have h1: "0x28 \<notin> set (reply_reason quoted_args)"
    by (simp add: reply_reason_samples ascii_def)
  have h2: "0x28 \<notin> set (reply_reason quoted_args_pri)"
    by (simp add: reply_reason_samples ascii_def)
  have h3: "sample_original () (default_time_point 1100 quoted_args) = Inr (ascii ''BASE'', [1, 2, 3])"
    by (rule sample_original_returns)
  have h4: "sample_original () quoted_args_pri = Inr (ascii ''BASE'', [1, 2, 3])"
    by (rule sample_original_returns)
  have q: "0x22 \<in> set (reply_reason quoted_args)"
    by (simp add: reply_reason_samples)
  show ?thesis
    using no_parenthesis_base_prompt [where orig_g = sample_original and orig_p = sample_original
        and self = "()" and self_pri = "()" and args = quoted_args and pargs = quoted_args_pri
        and t_default = 1100 and t_all = 1200 and t_check = 1300 and rp = "\<lambda>v. []" and c = alice_cache,
        OF h1 h2 h3 h4] h1 q
    by simp
qed

text \<open>
  Claim C10. Whenever the saved original is not \<open>None\<close> and returns a prompt and a token
  list, each wrapper returns the same token list, and a prompt that has the original's
  prompt as a suffix: a wrapper only ever prepends text. (When the original raises, so
  does the wrapper: the call is outside the \<open>try\<close>.)
\<close>

theorem wrapper_only_prepends:
  assumes "orig_g self (default_time_point t_default args) = Inr (base_prompt, token_list)"
    and "orig_p self_pri pargs = Inr (base_prompt_pri, token_list_pri)"
  shows "(\<exists>p. snd (patched_method rp (Some orig_g) self args t_default t_all t_check c)
                 = Inr (p, token_list) \<and> suffix base_prompt p)
       \<and> (\<exists>p. snd (patched_method_pri rp (Some orig_p) self_pri pargs t_all t_check c)
                 = Inr (p, token_list_pri) \<and> suffix base_prompt_pri p)"
proof -
  have g: "\<exists>p. finish_prompt base_prompt token_list
                 (enhance_prompt rp user_prompt_group fallback_prompt_group
                    (snd (get_all_user_info c t_all)) (reply_reason args) t_check base_prompt)
               = Inr (p, token_list) \<and> suffix base_prompt p"
    by (rule finish_prompt_suffix) (rule enhance_suffix)
  have p: "\<exists>p. finish_prompt base_prompt_pri token_list_pri
                 (enhance_prompt rp user_prompt_pri fallback_prompt_pri
                    (snd (get_all_user_info c t_all)) (reply_reason pargs) t_check base_prompt_pri)
               = Inr (p, token_list_pri) \<and> suffix base_prompt_pri p"
    by (rule finish_prompt_suffix) (rule enhance_suffix)
  show ?thesis
    using assms g p by (simp add: patched_method_result patched_method_pri_result)
qed

theorem wrapper_only_prepends_witness:
  "(\<exists>p. snd (patched_method (\<lambda>v. []) (Some sample_original) () sample_args 1100 1200 1300 alice_cache)
           = Inr (p, [1, 2, 3]) \<and> suffix (ascii ''BASE'') p)
   \<and> (\<exists>p. snd (patched_method_pri (\<lambda>v. []) (Some sample_original) () sample_args_pri 1200 1300 alice_cache)
           = Inr (p, [1, 2, 3]) \<and> suffix (ascii ''BASE'') p)"
proof -
  have h1: "sample_original () (default_time_point 1100 sample_args) = Inr (ascii ''BASE'', [1, 2, 3])"
    by (rule sample_original_returns)
  have h2: "sample_original () sample_args_pri = Inr (ascii ''BASE'', [1, 2, 3])"
    by (rule sample_original_returns)
  show ?thesis
    using wrapper_only_prepends [where orig_g = sample_original and orig_p = sample_original
        and self = "()" and self_pri = "()" and args = sample_args and pargs = sample_args_pri
        and t_default = 1100, OF h1 h2]
    by simp
qed

text \<open>
  Claim C7. When every cache record whose display name is the name extracted from
  \<open>reply_reason\<close> is expired, a wrapper returns the base prompt unchanged. Expired means
  that the cache entry is more than 600 seconds old when \<open>get_all_user_info\<close> reads the
  clock (it then drops the entry), or that the record itself is at least 600 seconds old
  at the check of line 303 (a record older than 600 seconds is).
\<close>

theorem expired_record_not_used:
  assumes "wf_dict c"
    and "orig_g self (default_time_point t_default args) = Inr (base_prompt, token_list)"
    and "orig_p self_pri pargs = Inr (base_prompt_pri, token_list_pri)"
    and "\<forall>p \<in> set c. extract_sender_name (reply_reason args) = Inr (display_name (user_data (snd p)))
        \<longrightarrow> t_all - UserInfoCache.timestamp (snd p) > 600
            \<or> t_check - UserInfoData.timestamp (user_data (snd p)) \<ge> 600"
    and "\<forall>p \<in> set c. extract_sender_name (reply_reason pargs) = Inr (display_name (user_data (snd p)))
        \<longrightarrow> t_all - UserInfoCache.timestamp (snd p) > 600
            \<or> t_check - UserInfoData.timestamp (user_data (snd p)) \<ge> 600"
  shows "snd (patched_method rp (Some orig_g) self args t_default t_all t_check c)
           = Inr (base_prompt, token_list)
       \<and> snd (patched_method_pri rp (Some orig_p) self_pri pargs t_all t_check c)
           = Inr (base_prompt_pri, token_list_pri)"
  using assms
  by (simp add: patched_method_result patched_method_pri_result finish_prompt_unchanged
      get_all_live_records enhance_expired)

theorem expired_record_not_used_witness:
  "wf_dict alice_cache
   \<and> extract_sender_name (reply_reason sample_args) = Inr (display_name sample_record)
   \<and> snd (patched_method (\<lambda>v. []) (Some sample_original) () sample_args 1100 1700 1701 alice_cache)
       = Inr (ascii ''BASE'', [1, 2, 3])
   \<and> snd (patched_method_pri (\<lambda>v. []) (Some sample_original) () sample_args_pri 1700 1701 alice_cache)
       = Inr (ascii ''BASE'', [1, 2, 3])"
proof -
  have h2: "sample_original () (default_time_point 1100 sample_args) = Inr (ascii ''BASE'', [1, 2, 3])"
    by (rule sample_original_returns)
  have h3: "sample_original () sample_args_pri = Inr (ascii ''BASE'', [1, 2, 3])"
    by (rule sample_original_returns)
  have h4: "\<forall>p \<in> set alice_cache.
      extract_sender_name (reply_reason sample_args) = Inr (display_name (user_data (snd p)))
        \<longrightarrow> 1700 - UserInfoCache.timestamp (snd p) > 600
            \<or> 1701 - UserInfoData.timestamp (user_data (snd p)) \<ge> 600"
    by (simp add: alice_cache_def)
  have h5: "\<forall>p \<in> set alice_cache.
      extract_sender_name (reply_reason sample_args_pri) = Inr (display_name (user_data (snd p)))
        \<longrightarrow> 1700 - UserInfoCache.timestamp (snd p) > 600
            \<or> 1701 - UserInfoData.timestamp (user_data (snd p)) \<ge> 600"
    by (simp add: alice_cache_def)
  have n: "extract_sender_name (reply_reason sample_args) = Inr (display_name sample_record)"
    by (simp add: reply_reason_samples extract_alice sample_record_def)
  show ?thesis
    using expired_record_not_used [where orig_g = sample_original and orig_p = sample_original
        and self = "()" and self_pri = "()" and args = sample_args and pargs = sample_args_pri
        and t_default = 1100 and t_all = 1700 and t_check = 1701 and rp = "\<lambda>v. []",
        OF wf_alice_cache h2 h3 h4 h5] wf_alice_cache n
    by simp
qed

text \<open>
  Claim C1, amended. The group wrapper, with a non-empty base prompt, the
  \<open>reply_reason\<close> \<open>told Alice (Alice) hi\<close>, and a cache with distinct keys that holds
  under a non-empty user id a record with display name Alice, \<open>success = True\<close>, an age
  under 600 seconds (of the entry at \<open>get_all_user_info\<close> and of the record at the
  check) and an \<open>api_data\<close> whose \<open>data\<close> has impression 30 and attitude friendly, no
  entry before it that is still alive being named Alice: the returned prompt is the
  header naming Alice, the record's user id, the impression 30 and the attitude
  friendly, then the tier description, then the base prompt; the token list is the
  original's. The tier description contains the line of the tier from 25 to 50.
\<close>

theorem alice_prompt:
  assumes wf: "wf_dict c"
    and orig: "orig_g self (default_time_point t_default args) = Inr (base_prompt, token_list)"
    and nonempty: "base_prompt \<noteq> []"
    and reason: "reply_reason args = ascii ''told Alice (Alice) hi''"
    and entry: "c = before @ (uid, e) # rest"
    and first: "\<forall>p \<in> set before. display_name (user_data (snd p)) = ascii ''Alice''
                  \<longrightarrow> t_all - UserInfoCache.timestamp (snd p) > 600"
    and key: "uid \<noteq> []"
    and name: "display_name (user_data e) = ascii ''Alice''"
    and ok: "success (user_data e)"
    and fresh_entry: "t_all - UserInfoCache.timestamp e \<le> 600"
    and fresh: "t_check - UserInfoData.timestamp (user_data e) < 600"
    and data: "dict_get (api_data (user_data e)) (ascii ''data'') = Some (PyDict d)"
    and impression: "dict_get d (ascii ''impression'') = Some (PyInt 30)"
    and attitude: "dict_get d (ascii ''attitude'') = Some (PyStr (ascii ''friendly''))"
  shows "snd (patched_method rp (Some orig_g) self args t_default t_all t_check c)
           = Inr (group_header_1 @ ascii ''Alice'' @ header_qq @ user_id (user_data e)
                    @ header_impression @ ascii ''30'' @ group_header_attitude
                    @ ascii ''friendly'' @ group_header_end
                    @ impression_prompt @ base_prompt, token_list)
       \<and> (\<exists>pre post. impression_prompt = pre @ tier_25_50 @ post)"
proof -
  let ?uc = "live_records t_all c"
  have live: "\<not> expired t_all e"
    using fresh_entry by (simp add: expired_def)
  have uc: "?uc = live_records t_all before @ (uid, user_data e) # live_records t_all rest"
    using live by (simp add: entry live_records_def)
  have none: "\<forall>p \<in> set (live_records t_all before). display_name (snd p) \<noteq> ascii ''Alice''"
    using first by (auto simp: live_records_def expired_def)
  have fs: "find_sender ?uc (ascii ''Alice'') = Some uid"
    unfolding uc using none name by (rule find_sender_first)
  have s: "sender_user_id ?uc (reply_reason args) = Inr (Some uid)"
    by (simp add: sender_user_id_def reason extract_alice bind_exn_def fs) (simp add: ascii_def)
  have mem: "(uid, user_data e) \<in> set ?uc"
    by (simp add: uc)
  have g: "dict_get ?uc uid = Some (user_data e)"
    using dict_get_member [OF wf_live_records [OF wf] mem] .
  have en: "enhance_prompt rp user_prompt_group fallback_prompt_group ?uc (reply_reason args)
        t_check base_prompt
      = Inr (Some (user_prompt_group (user_data e) (ascii ''30'') (ascii ''friendly'')
                     @ impression_prompt @ base_prompt))"
    using s g key fresh ok data impression attitude
    by (simp add: enhance_prompt_def bind_exn_def get_default_def str_int_30)
  have "snd (patched_method rp (Some orig_g) self args t_default t_all t_check c)
      = Inr (user_prompt_group (user_data e) (ascii ''30'') (ascii ''friendly'')
               @ impression_prompt @ base_prompt, token_list)"
    using orig nonempty wf en
    by (simp add: patched_method_result get_all_live_records finish_prompt_def)
  then show ?thesis
    using name tier_25_50_in_prompt by (simp add: user_prompt_group_def)
qed

theorem alice_prompt_witness:
  "snd (patched_method (\<lambda>v. []) (Some sample_original) () sample_args 1100 1200 1300 alice_cache)
     = Inr (group_header_1 @ ascii ''Alice'' @ header_qq @ ascii ''42''
              @ header_impression @ ascii ''30'' @ group_header_attitude
              @ ascii ''friendly'' @ group_header_end
              @ impression_prompt @ ascii ''BASE'', [1, 2, 3])"
proof -
  let ?e = "\<lparr>user_data = sample_record, timestamp = 1000\<rparr>"
  let ?d = "[(ascii ''impression'', PyInt 30), (ascii ''attitude'', PyStr (ascii ''friendly''))]"
  have h2: "sample_original () (default_time_point 1100 sample_args) = Inr (ascii ''BASE'', [1, 2, 3])"
    by (rule sample_original_returns)
  have h3: "ascii ''BASE'' \<noteq> []" by (simp add: ascii_def)
  have h5: "alice_cache = [] @ (ascii ''42'', ?e) # []" by (simp add: alice_cache_def)
  have h6: "ascii ''42'' \<noteq> []" by (simp add: ascii_def)
  have h7: "display_name (user_data ?e) = ascii ''Alice''" by (simp add: sample_record_def)
  have h8: "\<forall>p \<in> set []. display_name (user_data (snd p)) = ascii ''Alice''
      \<longrightarrow> (1200 :: real) - UserInfoCache.timestamp (snd p) > 600"
    by simp
  have h9: "success (user_data ?e)" by (simp add: sample_record_def)
  have h10: "(1200 :: real) - UserInfoCache.timestamp ?e \<le> 600" by simp
  have h11: "(1300 :: real) - UserInfoData.timestamp (user_data ?e) < 600" by (simp add: sample_record_def)
  have h12: "dict_get (api_data (user_data ?e)) (ascii ''data'') = Some (PyDict ?d)"
    by (simp add: sample_record_def create_success_response_def dict_get_def ascii_def)
  have h13: "dict_get ?d (ascii ''impression'') = Some (PyInt 30)"
    by (simp add: dict_get_def)
  have h14: "dict_get ?d (ascii ''attitude'') = Some (PyStr (ascii ''friendly''))"
    by (simp add: dict_get_def ascii_def)
  show ?thesis
    using alice_prompt [where orig_g = sample_original and self = "()" and args = sample_args
        and t_default = 1100 and t_all = 1200 and t_check = 1300 and rp = "\<lambda>v. []",
        OF wf_alice_cache h2 h3 reply_reason_samples(1) h5 h8 h6 h7 h9 h10 h11 h12 h13 h14]
    by (simp add: sample_record_def)
qed

lemma wf_two_alice_cache: "wf_dict two_alice_cache"
  by (simp add: two_alice_cache_def wf_dict_def ascii_def)

lemma wf_empty_key_cache: "wf_dict empty_key_cache"
  by (simp add: empty_key_cache_def wf_dict_def)

lemma enhance_two_alice:
  "enhance_prompt rp user_prompt_group fallback_prompt_group (live_records 1200 two_alice_cache)
     (ascii ''told Alice (Alice) hi'') 1300 (ascii ''BASE'')
   = Inr (Some (fallback_prompt_group failed_alice_record @ ascii ''BASE''))"
proof -
  have l: "live_records 1200 two_alice_cache = [(ascii ''7'', failed_alice_record), (ascii ''42'', sample_record)]"
    by (simp add: live_records_def two_alice_cache_def expired_def)
  have s: "sender_user_id [(ascii ''7'', failed_alice_record), (ascii ''42'', sample_record)]
      (ascii ''told Alice (Alice) hi'') = Inr (Some (ascii ''7''))"
    by (simp add: sender_user_id_def extract_alice bind_exn_def failed_alice_record_def)
       (simp add: ascii_def)
  show ?thesis
    by (simp add: enhance_prompt_def l s bind_exn_def dict_get_def)
       (simp add: failed_alice_record_def ascii_def)
qed

lemma enhance_empty_key:
  "enhance_prompt rp user_prompt_group fallback_prompt_group (live_records 1200 empty_key_cache)
     (ascii ''told Alice (Alice) hi'') 1300 (ascii ''BASE'') = Inr None"
proof -
  have l: "live_records 1200 empty_key_cache = [([], sample_record)]"
    by (simp add: live_records_def empty_key_cache_def expired_def)
  have s: "sender_user_id [([], sample_record)] (ascii ''told Alice (Alice) hi'') = Inr (Some [])"
    by (simp add: sender_user_id_def extract_alice bind_exn_def sample_record_def)
       (simp add: ascii_def)
  show ?thesis
    by (simp add: enhance_prompt_def l s bind_exn_def)
qed

text \<open>
  The claim without the condition on the first record named Alice, and without the
  condition on the key, fails. In \<open>two_alice_cache\<close> a record named Alice whose fetch
  had failed stands before the record of the claim: the wrapper takes the first and
  returns the short header without the tier description. In \<open>empty_key_cache\<close> the
  record of the claim is stored under the empty user id, which line 298 takes for no
  match: the wrapper returns the base prompt.
\<close>

theorem alice_prompt_counterexample:
  "(ascii ''42'', \<lparr>user_data = sample_record, timestamp = 1000\<rparr>) \<in> set two_alice_cache
   \<and> display_name sample_record = ascii ''Alice''
   \<and> success sample_record
   \<and> (1300 :: real) - UserInfoData.timestamp sample_record < 600
   \<and> dict_get (api_data sample_record) (ascii ''data'')
       = Some (PyDict [(ascii ''impression'', PyInt 30), (ascii ''attitude'', PyStr (ascii ''friendly''))])
   \<and> snd (patched_method (\<lambda>v. []) (Some sample_original) () sample_args 1100 1200 1300 two_alice_cache)
       = Inr (fallback_prompt_group failed_alice_record @ ascii ''BASE'', [1, 2, 3])
   \<and> fallback_prompt_group failed_alice_record @ ascii ''BASE''
       \<noteq> group_header_1 @ ascii ''Alice'' @ header_qq @ ascii ''42''
              @ header_impression @ ascii ''30'' @ group_header_attitude
              @ ascii ''friendly'' @ group_header_end
              @ impression_prompt @ ascii ''BASE''
   \<and> ([], \<lparr>user_data = sample_record, timestamp = 1000\<rparr>) \<in> set empty_key_cache
   \<and> snd (patched_method (\<lambda>v. []) (Some sample_original) () sample_args 1100 1200 1300 empty_key_cache)
       = Inr (ascii ''BASE'', [1, 2, 3])"
proof -
  have o: "sample_original () (default_time_point 1100 sample_args) = Inr (ascii ''BASE'', [1, 2, 3])"
    by (rule sample_original_returns)
  have b: "ascii ''BASE'' \<noteq> []" by (simp add: ascii_def)
  have r1: "snd (patched_method (\<lambda>v. []) (Some sample_original) () sample_args 1100 1200 1300 two_alice_cache)
       = Inr (fallback_prompt_group failed_alice_record @ ascii ''BASE'', [1, 2, 3])"
    using o b
    by (simp add: patched_method_result get_all_live_records wf_two_alice_cache
        reply_reason_samples enhance_two_alice finish_prompt_def)
  have r2: "snd (patched_method (\<lambda>v. []) (Some sample_original) () sample_args 1100 1200 1300 empty_key_cache)
       = Inr (ascii ''BASE'', [1, 2, 3])"
    using o b
    by (simp add: patched_method_result get_all_live_records wf_empty_key_cache
        reply_reason_samples enhance_empty_key finish_prompt_def)
  have ne: "fallback_prompt_group failed_alice_record @ ascii ''BASE''
       \<noteq> group_header_1 @ ascii ''Alice'' @ header_qq @ ascii ''42''
              @ header_impression @ ascii ''30'' @ group_header_attitude
              @ ascii ''friendly'' @ group_header_end
              @ impression_prompt @ ascii ''BASE''"
    by (simp add: fallback_prompt_group_def group_fallback_1_def group_header_1_def)
  have m: "(ascii ''42'', \<lparr>user_data = sample_record, timestamp = 1000\<rparr>) \<in> set two_alice_cache"
    by (simp add: two_alice_cache_def)
  have m2: "([], \<lparr>user_data = sample_record, timestamp = 1000\<rparr>) \<in> set empty_key_cache"
    by (simp add: empty_key_cache_def)
  have p: "display_name sample_record = ascii ''Alice'' \<and> success sample_record
      \<and> (1300 :: real) - UserInfoData.timestamp sample_record < 600
      \<and> dict_get (api_data sample_record) (ascii ''data'')
       = Some (PyDict [(ascii ''impression'', PyInt 30), (ascii ''attitude'', PyStr (ascii ''friendly''))])"
    by (simp add: sample_record_def create_success_response_def dict_get_def ascii_def)
  show ?thesis
    using r1 r2 ne m m2 p by blast
qed

section \<open>The claim about unloading\<close>

text \<open>
  Claim C8. From a state in which the patch is applied (the flag is set and both
  originals are saved), with the host modules importable as they were when the patch was
  applied, \<open>on_plugin_unload\<close> sets the attribute of both host classes to the saved
  originals, clears the flag and empties the global cache. The saved references stay.
\<close>

theorem unload_restores_originals:
  assumes "patch_applied s"
    and "original_group s = Some g"
    and "original_pri s = Some p"
  shows "group_attr (on_plugin_unload None s) = Some g
       \<and> pri_attr (on_plugin_unload None s) = Some p
       \<and> \<not> patch_applied (on_plugin_unload None s)
       \<and> global_user_cache (on_plugin_unload None s) = []
       \<and> original_group (on_plugin_unload None s) = Some g
       \<and> original_pri (on_plugin_unload None s) = Some p"
  using assms by (simp add: on_plugin_unload_def remove_user_info_patch_def)

theorem unload_restores_originals_witness:
  "patch_applied (fst (apply_user_info_patch None unpatched_state))
   \<and> original_group (fst (apply_user_info_patch None unpatched_state)) = Some (HostMethod 0)
   \<and> original_pri (fst (apply_user_info_patch None unpatched_state)) = Some (HostMethod 1)
   \<and> group_attr (fst (apply_user_info_patch None unpatched_state)) = Some PatchedMethod
   \<and> pri_attr (fst (apply_user_info_patch None unpatched_state)) = Some PatchedMethodPri
   \<and> on_plugin_unload None (fst (apply_user_info_patch None unpatched_state))
       = unpatched_state\<lparr>original_group := Some (HostMethod 0),
                          original_pri := Some (HostMethod 1),
                          global_user_cache := []\<rparr>"
proof -
  let ?s = "fst (apply_user_info_patch None unpatched_state)"
  have h1: "patch_applied ?s"
    by (simp add: apply_user_info_patch_def patch_build_prompt_reply_context_def)
  have h2: "original_group ?s = Some (HostMethod 0)"
    by (simp add: apply_user_info_patch_def patch_build_prompt_reply_context_def unpatched_state_def)
  have h3: "original_pri ?s = Some (HostMethod 1)"
    by (simp add: apply_user_info_patch_def patch_build_prompt_reply_context_def unpatched_state_def)
  have e: "on_plugin_unload None ?s
       = unpatched_state\<lparr>original_group := Some (HostMethod 0),
                          original_pri := Some (HostMethod 1),
                          global_user_cache := []\<rparr>"
    by (simp add: on_plugin_unload_def remove_user_info_patch_def apply_user_info_patch_def
        patch_build_prompt_reply_context_def unpatched_state_def)
  have a: "group_attr ?s = Some PatchedMethod \<and> pri_attr ?s = Some PatchedMethodPri"
    by (simp add: apply_user_info_patch_def patch_build_prompt_reply_context_def)
  show ?thesis
    using unload_restores_originals [OF h1 h2 h3] h1 h2 h3 e a by simp
qed

section \<open>The claim about the collector\<close>

lemma fetch_and_store_result:
  "\<exists>st r. fetch_and_store cfg http clock h c m uid name = (st, r)
     \<and> (\<forall>x. r = Inr x \<longrightarrow> (\<exists>msg. x = (True, True, msg, PyNone, PyNone)))"
  by (auto simp: fetch_and_store_def Let_def split: option.splits sum.splits prod.splits)

lemma execute_body_result:
  "\<exists>st r. execute_body rp cfg http clock h c m = (st, r)
     \<and> (\<forall>x. r = Inr x \<longrightarrow> (\<exists>msg. x = (True, True, msg, PyNone, PyNone)))"
proof -
  have f: "\<And>h1 c1 uid name x st. fetch_and_store cfg http clock h1 c1 m uid name = (st, Inr x)
      \<Longrightarrow> \<exists>msg. x = (True, True, msg, PyNone, PyNone)"
    using fetch_and_store_result by (metis prod.inject)
  show ?thesis
    by (cases "execute_body rp cfg http clock h c m")
       (auto simp: execute_body_def Let_def split: option.splits sum.splits prod.splits if_splits
          dest: f)
qed

text \<open>
  Claim C3. For every message, every configuration, every cache, every state of the
  handler and every outcome of the fetch, \<open>execute\<close> returns a tuple of five whose first
  two components are \<open>True\<close> and whose last two are \<open>None\<close>: on a cache hit, a cache
  miss, a failed fetch, a missing sender id and any exception raised in the body. The
  model of \<open>execute\<close> has no exception as a result: the handler of lines 714 to 718
  turns each one into such a tuple.
\<close>

theorem execute_always_continues:
  "\<exists>st msg. execute rp cfg http clock h c m = (st, (True, True, msg, PyNone, PyNone))"
proof -
  obtain st r where b: "execute_body rp cfg http clock h c m = (st, r)"
    and ok: "\<forall>x. r = Inr x \<longrightarrow> (\<exists>msg. x = (True, True, msg, PyNone, PyNone))"
    using execute_body_result by blast
  show ?thesis
  proof (cases r)
    case (Inl e)
    with b show ?thesis by (cases st) (simp add: execute_def)
  next
    case (Inr x)
    with ok obtain msg where "x = (True, True, msg, PyNone, PyNone)" by blast
    with b Inr show ?thesis by (cases st) (simp add: execute_def)
  qed
qed

text \<open>The paths of \<open>execute\<close> on sample inputs.\<close>

lemma str_int_42: "str_int 42 = ascii ''42''"
  by (simp add: str_int_def ascii_def digits.simps [of 42] digits.simps [of 4])

lemma sender_fields_sample:
  "sender_fields rp sample_message = (PyInt 42, ascii ''Alice'', [])"
  by (simp add: sender_fields_def sample_message_def get_default_def dict_get_def ascii_def)

lemma initialize_default:
  "initialize_service default_config new_handler =
     Inr \<lparr>api_service = Some \<lparr>base_url = PyStr (ascii ''http://10.255.255.254''),
             keep_alive_url = PyStr [], timeout = PyFloat 5, enabled_keep_alive = PyBool False,
             enable_api = PyBool True, session = None\<rparr>, initialized = True\<rparr>"
  by (simp add: initialize_service_def default_config_def new_handler_def bind_exn_def)

lemma execute_on_exception:
  "snd (execute rp raising_config http clock h c m)
     = (True, True, msg_error_prefix @ ascii ''boom'', PyNone, PyNone)"
  by (simp add: execute_def execute_body_def raising_config_def)

lemma execute_without_sender:
  "snd (execute rp default_config http clock new_handler c anonymous_message)
     = (True, True, msg_no_sender, PyNone, PyNone)"
proof -
  have f: "sender_fields rp anonymous_message = (PyNone, text_unknown_user, [])"
    by (simp add: sender_fields_def anonymous_message_def get_default_def dict_get_def)
  have d: "\<And>key dflt. default_config key dflt = Inr dflt"
    by (simp add: default_config_def)
  show ?thesis
    by (simp add: execute_def execute_body_def d initialize_default f)
qed

lemma execute_cache_hit:
  "snd (execute rp default_config http (\<lambda>n. 1100) new_handler alice_cache sample_message)
     = (True, True, msg_done_cached, PyNone, PyNone)"
proof -
  have g: "get_user_info alice_cache (ascii ''42'') 1100 = (alice_cache, Some sample_record)"
    by (simp add: get_user_info_def alice_cache_def dict_get_def)
  have d: "\<And>key dflt. default_config key dflt = Inr dflt"
    by (simp add: default_config_def)
  show ?thesis
    by (simp add: execute_def execute_body_def d initialize_default sender_fields_sample
        str_int_42 g)
qed

lemma execute_fetch_failure:
  "snd (execute rp default_config (RequestRaised (Exn TimeoutError [])) (\<lambda>n. 1100) new_handler []
          sample_message)
     = (True, True, msg_done_prefix @ text_failed, PyNone, PyNone)"
proof -
  have g: "get_user_info [] (ascii ''42'') 1100 = ([], None)"
    by (simp add: get_user_info_def dict_get_def)
  have d: "\<And>key dflt. default_config key dflt = Inr dflt"
    by (simp add: default_config_def)
  have f: "fetch_user_info \<lparr>base_url = PyStr (ascii ''http://10.255.255.254''),
             keep_alive_url = PyStr [], timeout = PyFloat 5, enabled_keep_alive = PyBool False,
             enable_api = PyBool True, session = None\<rparr> (ascii ''42'') (RequestRaised (Exn TimeoutError []))
      = Inr (\<lparr>base_url = PyStr (ascii ''http://10.255.255.254''),
             keep_alive_url = PyStr [], timeout = PyFloat 5, enabled_keep_alive = PyBool False,
             enable_api = PyBool True, session = Some ClientSession\<rparr>,
             [ascii ''http://10.255.255.254/get_info/42''],
             create_error_response err_api_timeout 0)"
    by (simp add: fetch_user_info_def get_session_def post_request_def handle_request_error_def
        rstrip_chr_def ascii_def)
  have s: "get_default (create_error_response err_api_timeout 0) (ascii ''success'') (PyBool False)
      = PyBool False"
    by (simp add: get_default_def create_error_response_def dict_get_def)
  show ?thesis
    by (simp add: execute_def execute_body_def d initialize_default sender_fields_sample
        str_int_42 g fetch_and_store_def f s Let_def)
qed

end
